theory Spec2Isabelle
  imports Complex_Main "HOL-Library.Char_ord" "HOL-Library.List_Lexorder"
begin

section \<open>Values of the host language\<close>

text \<open>
  The program is a JavaScript server, \<^verbatim>\<open>src/server.js\<close>; the repository holds three more
  files, which are other variants of the same server, and the model follows
  \<^verbatim>\<open>src/server.js\<close>. Its cell values come from a parsed spreadsheet and from JSON request
  bodies.

  A JavaScript number is a double: \<open>Finite q\<close> stands for the double whose exact value is
  the rational \<open>q\<close>, beside \<open>NaN\<close> and the two infinities. Every arithmetic operation
  gives the exact result rounded to the nearest double, ties to the even one, as the standard
  of floating-point arithmetic prescribes. The sign of zero is not modelled.

  A string is the list of its code units; the model covers the strings whose code units are
  below 256. The order on strings is the lexicographic order on code units, which is what the
  relational operators and the default \<^verbatim>\<open>sort()\<close> use.
\<close>

datatype jsnum = Finite rat | NaN | PosInf | NegInf

datatype cell =
    CNull
  | CUndefined
  | CBool bool
  | CNum jsnum
  | CStr string
  | CDate "int option"

text \<open>A \<open>CDate\<close> carries the time value of a Date object; \<open>None\<close> is an invalid date.\<close>

fun js_neg :: "jsnum \<Rightarrow> jsnum" where
  "js_neg (Finite a) = Finite (- a)"
| "js_neg NaN = NaN"
| "js_neg PosInf = NegInf"
| "js_neg NegInf = PosInf"

text \<open>
  Rounding to a double. A positive \<open>q\<close> with \<open>2^e \<le> q < 2^(e+1)\<close> is rounded to the nearest
  multiple of \<open>2^(e-52)\<close>; below \<open>2^(-1022)\<close> the spacing stays \<open>2^(-1074)\<close>, and a result of
  \<open>2^1024\<close> or more is infinite.
\<close>

definition pow2 :: "int \<Rightarrow> rat" where
  "pow2 e = (if 0 \<le> e then 2 ^ nat e else 1 / 2 ^ nat (- e))"

function bit_length :: "int \<Rightarrow> int" where
  "bit_length n = (if n \<le> 0 then 0 else 1 + bit_length (n div 2))"
  by auto
termination
  by (relation "measure nat") auto

declare bit_length.simps [simp del]

definition exponent_below :: "int \<Rightarrow> rat \<Rightarrow> int" where
  "exponent_below k q = (if q * pow2 k = 1 then - k else - k - 1)"

definition exponent_of :: "rat \<Rightarrow> int" where
  "exponent_of q =
     (if 1 \<le> q then bit_length \<lfloor>q\<rfloor> - 1
      else exponent_below (bit_length \<lfloor>1 / q\<rfloor> - 1) q)"

definition round_even :: "rat \<Rightarrow> int" where
  "round_even x =
     (if x - of_int \<lfloor>x\<rfloor> < 1 / 2 then \<lfloor>x\<rfloor>
      else if 1 / 2 < x - of_int \<lfloor>x\<rfloor> then \<lfloor>x\<rfloor> + 1
      else if even \<lfloor>x\<rfloor> then \<lfloor>x\<rfloor> else \<lfloor>x\<rfloor> + 1)"

definition round_at :: "int \<Rightarrow> rat \<Rightarrow> rat" where
  "round_at e q = of_int (round_even (q / pow2 (e - 52))) * pow2 (e - 52)"

definition or_infinity :: "rat \<Rightarrow> jsnum" where
  "or_infinity r = (if pow2 1024 \<le> r then PosInf else Finite r)"

definition round_pos :: "rat \<Rightarrow> jsnum" where
  "round_pos q = or_infinity (round_at (max (exponent_of q) (- 1022)) q)"

definition fl :: "rat \<Rightarrow> jsnum" where
  "fl q = (if q = 0 then Finite 0 else if 0 < q then round_pos q else js_neg (round_pos (- q)))"

fun js_add :: "jsnum \<Rightarrow> jsnum \<Rightarrow> jsnum" where
  "js_add (Finite a) (Finite b) = fl (a + b)"
| "js_add NaN y = NaN"
| "js_add x NaN = NaN"
| "js_add PosInf NegInf = NaN"
| "js_add NegInf PosInf = NaN"
| "js_add PosInf y = PosInf"
| "js_add NegInf y = NegInf"
| "js_add (Finite a) y = y"

definition js_sub :: "jsnum \<Rightarrow> jsnum \<Rightarrow> jsnum" where
  "js_sub x y = js_add x (js_neg y)"

definition signed_inf :: "bool \<Rightarrow> jsnum" where
  "signed_inf positive = (if positive then PosInf else NegInf)"

fun js_mul :: "jsnum \<Rightarrow> jsnum \<Rightarrow> jsnum" where
  "js_mul (Finite a) (Finite b) = fl (a * b)"
| "js_mul NaN y = NaN"
| "js_mul x NaN = NaN"
| "js_mul PosInf (Finite b) = (if b = 0 then NaN else signed_inf (0 < b))"
| "js_mul NegInf (Finite b) = (if b = 0 then NaN else signed_inf (b < 0))"
| "js_mul (Finite a) PosInf = (if a = 0 then NaN else signed_inf (0 < a))"
| "js_mul (Finite a) NegInf = (if a = 0 then NaN else signed_inf (a < 0))"
| "js_mul PosInf PosInf = PosInf"
| "js_mul PosInf NegInf = NegInf"
| "js_mul NegInf PosInf = NegInf"
| "js_mul NegInf NegInf = PosInf"

text \<open>Division is only ever by the literal 100 in the program; a zero divisor is read as \<open>+0\<close>.\<close>

fun js_div :: "jsnum \<Rightarrow> jsnum \<Rightarrow> jsnum" where
  "js_div (Finite a) (Finite b) =
     (if b = 0 then (if a = 0 then NaN else signed_inf (0 < a)) else fl (a / b))"
| "js_div NaN y = NaN"
| "js_div x NaN = NaN"
| "js_div (Finite a) y = Finite 0"
| "js_div PosInf (Finite b) = signed_inf (0 \<le> b)"
| "js_div NegInf (Finite b) = signed_inf (b < 0)"
| "js_div PosInf y = NaN"
| "js_div NegInf y = NaN"

fun js_less :: "jsnum \<Rightarrow> jsnum \<Rightarrow> bool" where
  "js_less (Finite a) (Finite b) = (a < b)"
| "js_less NaN y = False"
| "js_less x NaN = False"
| "js_less x NegInf = False"
| "js_less PosInf y = False"
| "js_less NegInf y = True"
| "js_less x PosInf = True"

definition isNaN :: "jsnum \<Rightarrow> bool" where
  "isNaN x = (x = NaN)"

text \<open>Truthiness, as tested by \<^verbatim>\<open>!value\<close>, \<^verbatim>\<open>a && b\<close> and \<^verbatim>\<open>a || b\<close>.\<close>

fun truthy_num :: "jsnum \<Rightarrow> bool" where
  "truthy_num (Finite a) = (a \<noteq> 0)"
| "truthy_num NaN = False"
| "truthy_num PosInf = True"
| "truthy_num NegInf = True"

fun truthy :: "cell \<Rightarrow> bool" where
  "truthy CNull = False"
| "truthy CUndefined = False"
| "truthy (CBool b) = b"
| "truthy (CNum n) = truthy_num n"
| "truthy (CStr s) = (s \<noteq> [])"
| "truthy (CDate d) = True"

section \<open>Strings\<close>

text \<open>\<^verbatim>\<open>s.split(c)\<close> for a one-character separator: never the empty array.\<close>

fun split_on :: "char \<Rightarrow> string \<Rightarrow> string list" where
  "split_on c [] = [[]]"
| "split_on c (x # xs) =
     (if x = c then [] # split_on c xs
      else (case split_on c xs of
              [] \<Rightarrow> [[x]]
            | w # ws \<Rightarrow> (x # w) # ws))"

definition digit_char :: "nat \<Rightarrow> char" where
  "digit_char d = ''0123456789'' ! (d mod 10)"

text \<open>The low two, three, four and six decimal digits of a number, padded with zeros.\<close>

definition digits2 :: "nat \<Rightarrow> string" where
  "digits2 n = [digit_char (n div 10), digit_char n]"

definition digits3 :: "nat \<Rightarrow> string" where
  "digits3 n = digit_char (n div 100) # digits2 n"

definition digits4 :: "nat \<Rightarrow> string" where
  "digits4 n = digits2 (n div 100) @ digits2 n"

definition digits6 :: "nat \<Rightarrow> string" where
  "digits6 n = digits2 (n div 10000) @ digits4 n"

definition is_digit :: "char \<Rightarrow> bool" where
  "is_digit c = (c \<in> set ''0123456789'')"

definition digit_val :: "char \<Rightarrow> nat" where
  "digit_val c = of_char c - 48"

definition number_of_digits :: "string \<Rightarrow> nat" where
  "number_of_digits s = foldl (\<lambda>acc c. 10 * acc + digit_val c) 0 s"

section \<open>The Date object\<close>

text \<open>
  Time values are milliseconds since 1970-01-01T00:00:00Z; a Date object is its time value,
  \<open>None\<close> when the date is invalid. The calendar is the proleptic Gregorian one, as the
  language standard prescribes; day numbers count from 1970-01-01.
\<close>

definition msPerDay :: int where
  "msPerDay = 86400000"

text \<open>
  Years are counted from 1 March, in eras of 400 years (146097 days); day 0 of era 0 is
  0000-03-01, which is 719468 days before 1970-01-01.
\<close>

definition march_year :: "int \<Rightarrow> int \<Rightarrow> int" where
  "march_year y m = (if m \<le> 2 then y - 1 else y)"

definition march_day :: "int \<Rightarrow> int \<Rightarrow> int" where
  "march_day m d = (153 * (if 2 < m then m - 3 else m + 9) + 2) div 5 + d - 1"

definition days_of_march_year :: "int \<Rightarrow> int \<Rightarrow> int" where
  "days_of_march_year y doy =
     (y div 400) * 146097
       + ((y mod 400) * 365 + (y mod 400) div 4 - (y mod 400) div 100 + doy) - 719468"

definition days_from_civil :: "int \<Rightarrow> int \<Rightarrow> int \<Rightarrow> int" where
  "days_from_civil y m d = days_of_march_year (march_year y m) (march_day m d)"

definition civil_of_doy :: "int \<Rightarrow> int \<Rightarrow> int \<Rightarrow> int \<times> int \<times> int" where
  "civil_of_doy y doy mp =
     (if mp < 10 then (y, mp + 3, doy - (153 * mp + 2) div 5 + 1)
      else (y + 1, mp - 9, doy - (153 * mp + 2) div 5 + 1))"

definition civil_of_yoe :: "int \<Rightarrow> int \<Rightarrow> int \<Rightarrow> int \<times> int \<times> int" where
  "civil_of_yoe era doe yoe =
     civil_of_doy (yoe + era * 400) (doe - (365 * yoe + yoe div 4 - yoe div 100))
       ((5 * (doe - (365 * yoe + yoe div 4 - yoe div 100)) + 2) div 153)"

definition civil_of_doe :: "int \<Rightarrow> int \<Rightarrow> int \<times> int \<times> int" where
  "civil_of_doe era doe =
     civil_of_yoe era doe ((doe - doe div 1460 + doe div 36524 - doe div 146096) div 365)"

definition civil_from_days :: "int \<Rightarrow> int \<times> int \<times> int" where
  "civil_from_days z = civil_of_doe ((z + 719468) div 146097) ((z + 719468) mod 146097)"

definition leap_year :: "int \<Rightarrow> bool" where
  "leap_year y = (y mod 4 = 0 \<and> (y mod 100 \<noteq> 0 \<or> y mod 400 = 0))"

definition days_in_month :: "int \<Rightarrow> int \<Rightarrow> int" where
  "days_in_month y m =
     (if m = 2 then (if leap_year y then 29 else 28)
      else if m = 4 \<or> m = 6 \<or> m = 9 \<or> m = 11 then 30 else 31)"

text \<open>\<open>TimeClip\<close>: a Date built from a number is invalid beyond 8.64e15 ms, and drops the
  fraction of a millisecond (towards zero).\<close>

definition truncate_rat :: "rat \<Rightarrow> int" where
  "truncate_rat q = (if 0 \<le> q then \<lfloor>q\<rfloor> else \<lceil>q\<rceil>)"

fun TimeClip :: "jsnum \<Rightarrow> int option" where
  "TimeClip (Finite q) = (if 8640000000000000 < \<bar>q\<bar> then None else Some (truncate_rat q))"
| "TimeClip x = None"

text \<open>The year of \<^verbatim>\<open>toISOString\<close>: four digits from 0 to 9999, else a sign and six digits.\<close>

definition iso_year :: "int \<Rightarrow> string" where
  "iso_year y =
     (if 0 \<le> y \<and> y \<le> 9999 then digits4 (nat y)
      else (if y < 0 then CHR ''-'' else CHR ''+'') # digits6 (nat \<bar>y\<bar>))"

definition iso_date :: "int \<times> int \<times> int \<Rightarrow> string" where
  "iso_date ymd =
     (case ymd of (y, m, d) \<Rightarrow>
        iso_year y @ ''-'' @ digits2 (nat m) @ ''-'' @ digits2 (nat d))"

definition iso_time :: "int \<Rightarrow> string" where
  "iso_time tw =
     digits2 (nat (tw div 3600000)) @ '':'' @ digits2 (nat ((tw div 60000) mod 60)) @ '':''
       @ digits2 (nat ((tw div 1000) mod 60)) @ ''.'' @ digits3 (nat (tw mod 1000)) @ ''Z''"

datatype exn = RangeError

text \<open>\<^verbatim>\<open>date.toISOString()\<close> throws a RangeError on an invalid date.\<close>

fun toISOString :: "int option \<Rightarrow> exn + string" where
  "toISOString None = Inl RangeError"
| "toISOString (Some t) =
     Inr (iso_date (civil_from_days (t div msPerDay)) @ ''T'' @ iso_time (t mod msPerDay))"

text \<open>
  The environment of the program: the offset of the server's local time from UTC in
  milliseconds (east positive) at local 1899-12-30T00:00, what \<^verbatim>\<open>Date.parse\<close> does on a
  string that is not a plain calendar date \<open>YYYY-MM-DD\<close> (implementation-defined for most of
  them; \<open>None\<close> is \<open>NaN\<close>), and \<^verbatim>\<open>parseFloat\<close> on strings.
\<close>

record engine =
  localTZA :: int
  parse_other :: "string \<Rightarrow> int option"
  parseFloat_str :: "string \<Rightarrow> jsnum"

text \<open>The date-only form \<open>YYYY-MM-DD\<close> of the standard's date-time format is read as UTC
  midnight; only real calendar dates are taken here, everything else is \<open>parse_other\<close>.\<close>

definition utc_midnight :: "int \<Rightarrow> int \<Rightarrow> int \<Rightarrow> int option" where
  "utc_midnight y m d =
     (if 1 \<le> m \<and> m \<le> 12 \<and> 1 \<le> d \<and> d \<le> days_in_month y m
      then Some (days_from_civil y m d * msPerDay) else None)"

definition parse_iso_date :: "string \<Rightarrow> int option" where
  "parse_iso_date s =
     (case s of
        [y1, y2, y3, y4, h1, m1, m2, h2, d1, d2] \<Rightarrow>
          (if list_all is_digit [y1, y2, y3, y4, m1, m2, d1, d2] \<and> h1 = CHR ''-'' \<and> h2 = CHR ''-''
           then utc_midnight (int (number_of_digits [y1, y2, y3, y4]))
                  (int (number_of_digits [m1, m2])) (int (number_of_digits [d1, d2]))
           else None)
      | _ \<Rightarrow> None)"

definition Date_parse :: "engine \<Rightarrow> string \<Rightarrow> int option" where
  "Date_parse env s =
     (case parse_iso_date s of Some t \<Rightarrow> Some t | None \<Rightarrow> parse_other env s)"

text \<open>\<^verbatim>\<open>new Date(value)\<close> with one argument.\<close>

fun Date_of :: "engine \<Rightarrow> cell \<Rightarrow> int option" where
  "Date_of env (CDate tv) = tv"
| "Date_of env (CStr s) = Date_parse env s"
| "Date_of env (CNum n) = TimeClip n"
| "Date_of env (CBool b) = TimeClip (Finite (if b then 1 else 0))"
| "Date_of env CNull = Some 0"
| "Date_of env CUndefined = None"

text \<open>\<^verbatim>\<open>new Date(1899, 11, 30)\<close>: local midnight of 30 December 1899.\<close>

definition excelEpoch :: "engine \<Rightarrow> int" where
  "excelEpoch env = days_from_civil 1899 12 30 * msPerDay - localTZA env"

section \<open>parseExcelDate\<close>

text \<open>\<^verbatim>\<open>date.toISOString().split('T')[0]\<close>\<close>

definition iso_date_only :: "int option \<Rightarrow> exn + string" where
  "iso_date_only date =
     (case toISOString date of
        Inl e \<Rightarrow> Inl e
      | Inr s \<Rightarrow> Inr (hd (split_on CHR ''T'' s)))"

text \<open>The inner loop over the two formats; \<open>None\<close> when the loop ends without a return.\<close>

fun try_formats :: "engine \<Rightarrow> string list \<Rightarrow> (exn + string) option" where
  "try_formats env [] = None"
| "try_formats env (format # formats) =
     (case Date_parse env format of
        Some t \<Rightarrow> Some (iso_date_only (Some t))
      | None \<Rightarrow> try_formats env formats)"

text \<open>The outer loop over the separators.\<close>

fun try_separators :: "engine \<Rightarrow> string \<Rightarrow> char list \<Rightarrow> (exn + string) option" where
  "try_separators env v [] = None"
| "try_separators env v (sep # seps) =
     (case split_on sep v of
        [p0, p1, p2] \<Rightarrow>
          (case try_formats env [p2 @ ''-'' @ p1 @ ''-'' @ p0, p2 @ ''-'' @ p0 @ ''-'' @ p1] of
             Some r \<Rightarrow> Some r
           | None \<Rightarrow> try_separators env v seps)
      | _ \<Rightarrow> try_separators env v seps)"

definition separators :: "char list" where
  "separators = [CHR ''-'', CHR ''/'', CHR ''.'']"

text \<open>The body of the \<^verbatim>\<open>try\<close> block: \<open>Inl\<close> is a thrown exception.\<close>

definition parseExcelDate_try :: "engine \<Rightarrow> cell \<Rightarrow> exn + string option" where
  "parseExcelDate_try env v =
     (case v of
        CNum n \<Rightarrow>
          map_sum id Some
            (iso_date_only
               (TimeClip (js_add (Finite (of_int (excelEpoch env)))
                                 (js_mul (js_sub n (Finite 1)) (Finite 86400000)))))
      | _ \<Rightarrow>
          (case (case v of CStr s \<Rightarrow> try_separators env s separators | _ \<Rightarrow> None) of
             Some r \<Rightarrow> map_sum id Some r
           | None \<Rightarrow>
               (case Date_of env v of
                  Some t \<Rightarrow> map_sum id Some (iso_date_only (Some t))
                | None \<Rightarrow> Inr None)))"

text \<open>The whole function: the guard on falsy values, then the \<^verbatim>\<open>try\<close> block, whose
  \<^verbatim>\<open>catch\<close> turns every exception into \<^verbatim>\<open>null\<close>.\<close>

definition parseExcelDate :: "engine \<Rightarrow> cell \<Rightarrow> exn + string option" where
  "parseExcelDate env v =
     (if \<not> truthy v then Inr None
      else (case parseExcelDate_try env v of
              Inl err \<Rightarrow> Inr None
            | Inr r \<Rightarrow> Inr r))"

section \<open>The upload handler\<close>

text \<open>
  A raw row is the object that the sheet reader yields for one line: column name to cell.
  Reading a property that the object lacks gives \<^verbatim>\<open>undefined\<close>.
\<close>

type_synonym raw_row = "string \<Rightarrow> cell option"

definition read_prop :: "raw_row \<Rightarrow> string \<Rightarrow> cell" where
  "read_prop row k = (case row k of None \<Rightarrow> CUndefined | Some v \<Rightarrow> v)"

text \<open>
  A processed row is \<^verbatim>\<open>{ ...row, RowIndex: index + 2, DateOnly: parseExcelDate(row.Date) }\<close>:
  the spread columns and the two properties written after them. \<open>as_object\<close> is the resulting
  object, where the two written properties shadow columns of the same name.
\<close>

record processed_row =
  cols :: raw_row
  RowIndex :: nat
  DateOnly :: "string option"

definition date_cell :: "string option \<Rightarrow> cell" where
  "date_cell d = (case d of None \<Rightarrow> CNull | Some s \<Rightarrow> CStr s)"

definition as_object :: "processed_row \<Rightarrow> raw_row" where
  "as_object r =
     (cols r)(''RowIndex'' \<mapsto> CNum (Finite (of_nat (RowIndex r))),
              ''DateOnly'' \<mapsto> date_cell (DateOnly r))"

definition get :: "processed_row \<Rightarrow> string \<Rightarrow> cell" where
  "get r k = read_prop (as_object r) k"

text \<open>The callback of \<^verbatim>\<open>rawData.map\<close>: \<open>None\<close> is the \<^verbatim>\<open>null\<close> of its \<^verbatim>\<open>catch\<close>.\<close>

definition process_row :: "engine \<Rightarrow> raw_row \<Rightarrow> nat \<Rightarrow> processed_row option" where
  "process_row env row index =
     (case parseExcelDate env (read_prop row ''Date'') of
        Inl err \<Rightarrow> None
      | Inr d \<Rightarrow> Some \<lparr>cols = row, RowIndex = index + 2, DateOnly = d\<rparr>)"

definition processedData :: "engine \<Rightarrow> raw_row list \<Rightarrow> processed_row list" where
  "processedData env rawData =
     List.map_filter (\<lambda>(row, index). process_row env row index)
       (zip rawData [0..<length rawData])"

text \<open>\<^verbatim>\<open>trim()\<close> removes white space and line terminators at both ends.\<close>

definition is_space :: "char \<Rightarrow> bool" where
  "is_space c =
     (c \<in> set [CHR 0x09, CHR 0x0A, CHR 0x0B, CHR 0x0C, CHR 0x0D, CHR 0x20, CHR 0xA0])"

definition trim :: "string \<Rightarrow> string" where
  "trim s = rev (dropWhile is_space (rev (dropWhile is_space s)))"

text \<open>The filter \<^verbatim>\<open>name && typeof name === 'string' && name.trim() !== ''\<close>; what passes is a
  string, and it is kept as it is.\<close>

fun merchant_name :: "cell \<Rightarrow> string option" where
  "merchant_name (CStr s) = (if s \<noteq> [] \<and> trim s \<noteq> [] then Some s else None)"
| "merchant_name c = None"

text \<open>\<^verbatim>\<open>[...new Set(xs)]\<close>: the first occurrence of each value, in order.\<close>

definition Set_of :: "'a list \<Rightarrow> 'a list" where
  "Set_of xs = foldl (\<lambda>acc x. if x \<in> set acc then acc else acc @ [x]) [] xs"

definition merchants :: "processed_row list \<Rightarrow> string list" where
  "merchants pd =
     sort (Set_of (List.map_filter merchant_name (map (\<lambda>row. get row ''Merchant Name'') pd)))"

text \<open>The data kept in \<^verbatim>\<open>req.app.locals\<close> between requests.\<close>

record file_data =
  fd_processedData :: "processed_row list"
  fd_merchants :: "string list"

record app_locals =
  fileData :: "file_data option"

datatype numstr = Fixed2 bool nat | Plain jsnum

record summary_row =
  Merchant :: cell
  TotalWithdrawalAmount :: numstr
  TotalWithdrawalFees :: numstr
  PercentAmount :: numstr
  TransactionCount :: nat

record generate_result =
  summary :: "summary_row list"
  transactions :: "raw_row list"
  outputFilename :: nat
  dateRange :: "string \<times> string"
  transactionCount :: nat
  merchantCount :: nat

datatype response =
    Error nat string
  | UploadOk "string list" nat "processed_row list"
  | GenerateOk generate_result

text \<open>
  The handler of \<^verbatim>\<open>POST /upload\<close> from the parsed rows on; reading the file from disk comes
  before it. It answers and replaces the stored data.
\<close>

definition upload :: "engine \<Rightarrow> raw_row list \<Rightarrow> app_locals \<Rightarrow> response \<times> app_locals" where
  "upload env rawData st =
     (if rawData = [] then (Error 400 ''NO_DATA'', st)
      else (UploadOk (merchants (processedData env rawData))
              (length (processedData env rawData)) (take 3 (processedData env rawData)),
            st\<lparr>fileData :=
                 Some \<lparr>fd_processedData = processedData env rawData,
                       fd_merchants = merchants (processedData env rawData)\<rparr>\<rparr>))"

section \<open>The generate handler\<close>

text \<open>
  The request body, with the types that the interface documents: an array of merchant names,
  a percentage (a number or a numeric string) and two date strings. An absent date is the
  empty string here, which the handler treats alike.
\<close>

record generate_body =
  selectedMerchants :: "string list"
  percentage :: cell
  startDate :: string
  endDate :: string

text \<open>\<^verbatim>\<open>parseFloat(x)\<close>: a number is read back as itself, a string by the engine, and every
  other cell prints as text that starts no number.\<close>

fun parseFloat :: "engine \<Rightarrow> cell \<Rightarrow> jsnum" where
  "parseFloat env (CNum n) = n"
| "parseFloat env (CStr s) = parseFloat_str env s"
| "parseFloat env c = NaN"

text \<open>\<^verbatim>\<open>x || 0\<close> on numbers.\<close>

definition or_zero :: "jsnum \<Rightarrow> jsnum" where
  "or_zero x = (if truthy_num x then x else Finite 0)"

text \<open>
  \<^verbatim>\<open>x.toFixed(2)\<close>. \<open>Fixed2 neg n\<close> stands for the decimal string of \<open>n / 100\<close> with two
  fraction digits, after a minus sign when \<open>neg\<close>; \<open>Plain x\<close> stands for \<^verbatim>\<open>String(x)\<close>, which
  is what \<^verbatim>\<open>toFixed\<close> gives from 1e21 on and for the values that are not finite. Among the
  nearest hundredths the larger is taken.
\<close>

fun toFixed2 :: "jsnum \<Rightarrow> numstr" where
  "toFixed2 (Finite q) =
     (if 1000000000000000000000 \<le> \<bar>q\<bar> then Plain (Finite q)
      else Fixed2 (q < 0) (nat \<lfloor>\<bar>q\<bar> * 100 + 1 / 2\<rfloor>))"
| "toFixed2 x = Plain x"

text \<open>\<^verbatim>\<open>parseFloat\<close> of such a string: the double nearest to the decimal.\<close>

fun parseFloat_numstr :: "numstr \<Rightarrow> jsnum" where
  "parseFloat_numstr (Fixed2 neg n) = fl ((if neg then - 1 else 1) * (of_nat n / 100))"
| "parseFloat_numstr (Plain x) = x"

text \<open>\<^verbatim>\<open>selectedMerchants.includes(v)\<close> on an array of strings.\<close>

fun js_includes :: "string list \<Rightarrow> cell \<Rightarrow> bool" where
  "js_includes xs (CStr s) = (s \<in> set xs)"
| "js_includes xs c = False"

text \<open>The filter of the handler.\<close>

definition row_matches :: "string list \<Rightarrow> string \<Rightarrow> string \<Rightarrow> processed_row \<Rightarrow> bool" where
  "row_matches sel sd ed row =
     (case DateOnly row of
        None \<Rightarrow> False
      | Some d \<Rightarrow> d \<noteq> [] \<and> sd \<le> d \<and> d \<le> ed \<and> js_includes sel (get row ''Merchant Name''))"

definition filteredData ::
  "string list \<Rightarrow> string \<Rightarrow> string \<Rightarrow> processed_row list \<Rightarrow> processed_row list" where
  "filteredData sel sd ed pd = filter (row_matches sel sd ed) pd"

text \<open>
  The summary map: a \<^verbatim>\<open>Map\<close> from merchant to running totals, in insertion order. Its keys
  are compared as \<^verbatim>\<open>Map\<close> compares them: a Date object is equal to no other object.
\<close>

record running =
  withdrawal :: jsnum
  fee :: jsnum
  percentAmount :: jsnum
  count :: nat

fun same_value_zero :: "cell \<Rightarrow> cell \<Rightarrow> bool" where
  "same_value_zero (CDate a) y = False"
| "same_value_zero x (CDate b) = False"
| "same_value_zero x y = (x = y)"

definition map_has :: "(cell \<times> running) list \<Rightarrow> cell \<Rightarrow> bool" where
  "map_has m k = list_ex (\<lambda>e. same_value_zero (fst e) k) m"

definition add_to :: "running \<Rightarrow> jsnum \<Rightarrow> jsnum \<Rightarrow> jsnum \<Rightarrow> running" where
  "add_to current w f p =
     \<lparr>withdrawal = js_add (withdrawal current) w, fee = js_add (fee current) f,
      percentAmount = js_add (percentAmount current) p, count = count current + 1\<rparr>"

definition zero_running :: running where
  "zero_running = \<lparr>withdrawal = Finite 0, fee = Finite 0, percentAmount = Finite 0, count = 0\<rparr>"

text \<open>One step of \<^verbatim>\<open>filteredData.forEach\<close>, for a row with the given merchant and amounts.\<close>

definition accumulate ::
  "(cell \<times> running) list \<Rightarrow> cell \<Rightarrow> jsnum \<Rightarrow> jsnum \<Rightarrow> jsnum \<Rightarrow> (cell \<times> running) list" where
  "accumulate m merchant w f p =
     (if map_has m merchant
      then map (\<lambda>e. if same_value_zero (fst e) merchant then (fst e, add_to (snd e) w f p) else e) m
      else m @ [(merchant, add_to zero_running w f p)])"

definition percent_of :: "jsnum \<Rightarrow> jsnum \<Rightarrow> jsnum" where
  "percent_of w percent = js_div (js_mul w percent) (Finite 100)"

definition summary_step ::
  "engine \<Rightarrow> jsnum \<Rightarrow> (cell \<times> running) list \<Rightarrow> processed_row \<Rightarrow> (cell \<times> running) list" where
  "summary_step env percent m row =
     accumulate m (get row ''Merchant Name'')
       (or_zero (parseFloat env (get row ''Withdrawal Amount'')))
       (or_zero (parseFloat env (get row ''Withdrawal Fees'')))
       (percent_of (or_zero (parseFloat env (get row ''Withdrawal Amount''))) percent)"

definition summaryMap ::
  "engine \<Rightarrow> jsnum \<Rightarrow> processed_row list \<Rightarrow> (cell \<times> running) list" where
  "summaryMap env percent rows = foldl (summary_step env percent) [] rows"

text \<open>The rows of the summary, one for each entry of the map. The property named
  \<^verbatim>\<open>`${percent}% Amount`\<close> is the field \<open>PercentAmount\<close>.\<close>

definition merchant_row :: "cell \<times> running \<Rightarrow> summary_row" where
  "merchant_row e =
     \<lparr>Merchant = fst e,
      TotalWithdrawalAmount = toFixed2 (withdrawal (snd e)),
      TotalWithdrawalFees = toFixed2 (fee (snd e)),
      PercentAmount = toFixed2 (percentAmount (snd e)),
      TransactionCount = count (snd e)\<rparr>"

text \<open>\<^verbatim>\<open>rows.reduce((sum, row) => sum + parseFloat(row[f]), 0)\<close>\<close>

definition reduce_field :: "(summary_row \<Rightarrow> numstr) \<Rightarrow> summary_row list \<Rightarrow> jsnum" where
  "reduce_field f rows = foldl (\<lambda>sum row. js_add sum (parseFloat_numstr (f row))) (Finite 0) rows"

definition totals :: "summary_row list \<Rightarrow> summary_row" where
  "totals rows =
     \<lparr>Merchant = CStr ''TOTAL'',
      TotalWithdrawalAmount = toFixed2 (reduce_field TotalWithdrawalAmount rows),
      TotalWithdrawalFees = toFixed2 (reduce_field TotalWithdrawalFees rows),
      PercentAmount = toFixed2 (reduce_field PercentAmount rows),
      TransactionCount = foldl (\<lambda>sum row. sum + TransactionCount row) 0 rows\<rparr>"

definition summaryData :: "engine \<Rightarrow> jsnum \<Rightarrow> processed_row list \<Rightarrow> summary_row list" where
  "summaryData env percent rows =
     map merchant_row (summaryMap env percent rows)
       @ [totals (map merchant_row (summaryMap env percent rows))]"

text \<open>A row of the exported sheet: \<^verbatim>\<open>const { RowIndex, DateOnly, ...rest } = row\<close>.\<close>

definition rest_of :: "processed_row \<Rightarrow> raw_row" where
  "rest_of row = (as_object row)(''RowIndex'' := None, ''DateOnly'' := None)"

text \<open>\<^verbatim>\<open>!Date.parse(s)\<close> holds when the result is \<open>NaN\<close> or \<open>0\<close>.\<close>

definition falsy_time :: "int option \<Rightarrow> bool" where
  "falsy_time t = (t = None \<or> t = Some 0)"

definition bad_percent :: "jsnum \<Rightarrow> bool" where
  "bad_percent percent =
     (isNaN percent \<or> js_less percent (Finite 0) \<or> js_less (Finite 100) percent)"

definition bad_dates :: "engine \<Rightarrow> string \<Rightarrow> string \<Rightarrow> bool" where
  "bad_dates env sd ed =
     (sd = [] \<or> ed = [] \<or> falsy_time (Date_parse env sd) \<or> falsy_time (Date_parse env ed))"

text \<open>
  The handler of \<^verbatim>\<open>POST /generate\<close>. \<open>now\<close> is the clock reading \<^verbatim>\<open>Date.now()\<close> that names
  the written workbook; the workbook is given by its two sheets, \<open>transactions\<close> and
  \<open>summary\<close>, and a failure of the file system is outside the model. The handler assigns
  to nothing that is stored: the data come back as they went in.
\<close>

definition generate ::
  "engine \<Rightarrow> nat \<Rightarrow> generate_body \<Rightarrow> app_locals \<Rightarrow> response \<times> app_locals" where
  "generate env now body st =
     (if selectedMerchants body = [] then (Error 400 ''NO_MERCHANTS'', st)
      else if bad_percent (parseFloat env (percentage body))
      then (Error 400 ''INVALID_PERCENTAGE'', st)
      else if bad_dates env (startDate body) (endDate body) then (Error 400 ''INVALID_DATE'', st)
      else (case fileData st of
              None \<Rightarrow> (Error 400 ''NO_DATA'', st)
            | Some fd \<Rightarrow>
                (if filteredData (selectedMerchants body) (startDate body) (endDate body)
                      (fd_processedData fd) = []
                 then (Error 404 ''NO_MATCHING_DATA'', st)
                 else (GenerateOk
                         \<lparr>summary =
                            summaryData env (parseFloat env (percentage body))
                              (filteredData (selectedMerchants body) (startDate body)
                                 (endDate body) (fd_processedData fd)),
                          transactions =
                            map rest_of
                              (filteredData (selectedMerchants body) (startDate body)
                                 (endDate body) (fd_processedData fd)),
                          outputFilename = now,
                          dateRange = (startDate body, endDate body),
                          transactionCount =
                            length (filteredData (selectedMerchants body) (startDate body)
                                      (endDate body) (fd_processedData fd)),
                          merchantCount =
                            length (summaryMap env (parseFloat env (percentage body))
                                      (filteredData (selectedMerchants body) (startDate body)
                                         (endDate body) (fd_processedData fd)))\<rparr>,
                       st))))"

section \<open>Specification-level notions and sample data\<close>

text \<open>
  The readings of a date string that the specification lists, in its order: for each
  separator under which the string has exactly three components, the day-first reading
  \<open>DD-MM-YYYY\<close> and then the month-first reading \<open>MM-DD-YYYY\<close>, each rewritten as
  \<open>YYYY-MM-DD\<close>; at the end the string itself.
\<close>

definition readings_for :: "char \<Rightarrow> string \<Rightarrow> string list" where
  "readings_for sep s =
     (case split_on sep s of
        [a, b, c] \<Rightarrow> [c @ ''-'' @ b @ ''-'' @ a, c @ ''-'' @ a @ ''-'' @ b]
      | _ \<Rightarrow> [])"

definition interpretations :: "string \<Rightarrow> string list" where
  "interpretations s =
     readings_for CHR ''-'' s @ readings_for CHR ''/'' s @ readings_for CHR ''.'' s @ [s]"

text \<open>The canonical date of the first reading that \<^verbatim>\<open>Date.parse\<close> accepts.\<close>

definition first_valid :: "engine \<Rightarrow> string list \<Rightarrow> string option" where
  "first_valid env cands =
     (case List.find (\<lambda>c. Date_parse env c \<noteq> None) cands of
        None \<Rightarrow> None
      | Some c \<Rightarrow>
          map_option (\<lambda>t. iso_date (civil_from_days (t div msPerDay))) (Date_parse env c))"


text \<open>What the two answers of the generate handler have in common when the clock differs.\<close>

fun rows_of :: "response \<Rightarrow> (summary_row list \<times> raw_row list) option" where
  "rows_of (GenerateOk res) = Some (summary res, transactions res)"
| "rows_of r = None"

text \<open>
  What V8, the engine of node, reads beyond the plain calendar dates in the date-only form:
  a day up to 31 whatever the month, the days past the end of the month running into the
  next month.
\<close>

definition overflowing_day :: "int \<Rightarrow> int \<Rightarrow> int \<Rightarrow> int option" where
  "overflowing_day y m d =
     (if 1 \<le> m \<and> m \<le> 12 \<and> 1 \<le> d \<and> d \<le> 31
      then Some ((days_from_civil y m 1 + (d - 1)) * msPerDay) else None)"

definition v8_date_only :: "string \<Rightarrow> int option" where
  "v8_date_only s =
     (case s of
        [y1, y2, y3, y4, h1, m1, m2, h2, d1, d2] \<Rightarrow>
          (if list_all is_digit [y1, y2, y3, y4, m1, m2, d1, d2] \<and> h1 = CHR ''-'' \<and> h2 = CHR ''-''
           then overflowing_day (int (number_of_digits [y1, y2, y3, y4]))
                  (int (number_of_digits [m1, m2])) (int (number_of_digits [d1, d2]))
           else None)
      | _ \<Rightarrow> None)"

text \<open>
  An engine for concrete runs: a server whose local time is UTC, whose \<^verbatim>\<open>Date.parse\<close>
  reads the date-only form as V8 does and nothing else, and whose \<^verbatim>\<open>parseFloat\<close> reads no
  string. A second one differs by its local time, five and a half hours east of UTC.
\<close>

definition utc_engine :: engine where
  "utc_engine = \<lparr>localTZA = 0, parse_other = v8_date_only, parseFloat_str = (\<lambda>s. NaN)\<rparr>"


text \<open>The two rows of the scenario in the specification.\<close>

definition row_A :: raw_row where
  "row_A = [''Date'' \<mapsto> CNum (Finite 45001), ''Merchant Name'' \<mapsto> CStr ''A'',
            ''Withdrawal Amount'' \<mapsto> CNum (Finite 100), ''Withdrawal Fees'' \<mapsto> CNum (Finite 2)]"

definition row_B :: raw_row where
  "row_B = [''Date'' \<mapsto> CNum (Finite 45002), ''Merchant Name'' \<mapsto> CStr ''B'',
            ''Withdrawal Amount'' \<mapsto> CNum (Finite 50), ''Withdrawal Fees'' \<mapsto> CNum (Finite 1)]"

text \<open>
  Three rows of one day with the amounts 45035996273704.96, 45035996273704.97 and 0.01,
  each cell holding the double nearest to the decimal.
\<close>

definition big_A :: raw_row where
  "big_A = [''Date'' \<mapsto> CNum (Finite 45001), ''Merchant Name'' \<mapsto> CStr ''A'',
            ''Withdrawal Amount'' \<mapsto> CNum (Finite (5764607523034235 / 128)),
            ''Withdrawal Fees'' \<mapsto> CNum (Finite 0)]"

definition big_B :: raw_row where
  "big_B = [''Date'' \<mapsto> CNum (Finite 45001), ''Merchant Name'' \<mapsto> CStr ''B'',
            ''Withdrawal Amount'' \<mapsto> CNum (Finite (5764607523034236 / 128)),
            ''Withdrawal Fees'' \<mapsto> CNum (Finite 0)]"

definition big_C :: raw_row where
  "big_C = [''Date'' \<mapsto> CNum (Finite 45001), ''Merchant Name'' \<mapsto> CStr ''C'',
            ''Withdrawal Amount'' \<mapsto> CNum (Finite (5764607523034235 / 576460752303423488)),
            ''Withdrawal Fees'' \<mapsto> CNum (Finite 0)]"

text \<open>Two rows with the amount 0.004, the cell holding the double nearest to it.\<close>

definition small_A :: raw_row where
  "small_A = [''Date'' \<mapsto> CNum (Finite 45001), ''Merchant Name'' \<mapsto> CStr ''A'',
              ''Withdrawal Amount'' \<mapsto> CNum (Finite (1152921504606847 / 288230376151711744)),
              ''Withdrawal Fees'' \<mapsto> CNum (Finite 0)]"

definition small_B :: raw_row where
  "small_B = [''Date'' \<mapsto> CNum (Finite 45002), ''Merchant Name'' \<mapsto> CStr ''B'',
              ''Withdrawal Amount'' \<mapsto> CNum (Finite (1152921504606847 / 288230376151711744)),
              ''Withdrawal Fees'' \<mapsto> CNum (Finite 0)]"

definition padded_row :: raw_row where
  "padded_row = [''Date'' \<mapsto> CNum (Finite 45001), ''Merchant Name'' \<mapsto> CStr '' A'']"

definition sample_body :: generate_body where
  "sample_body =
     \<lparr>selectedMerchants = [''A'', ''B''], percentage = CNum (Finite 5),
      startDate = ''2023-03-15'', endDate = ''2023-03-16''\<rparr>"

definition one_day_body :: generate_body where
  "one_day_body =
     \<lparr>selectedMerchants = [''A'', ''B''], percentage = CNum (Finite 5),
      startDate = ''2023-03-15'', endDate = ''2023-03-15''\<rparr>"

definition big_body :: generate_body where
  "big_body =
     \<lparr>selectedMerchants = [''A'', ''B'', ''C''], percentage = CNum (Finite 0),
      startDate = ''2023-03-15'', endDate = ''2023-03-15''\<rparr>"

definition no_data :: app_locals where
  "no_data = \<lparr>fileData = None\<rparr>"

definition sample_state :: app_locals where
  "sample_state = snd (upload utc_engine [row_A, row_B] no_data)"

definition small_state :: app_locals where
  "small_state = snd (upload utc_engine [small_A, small_B] no_data)"

definition big_state :: app_locals where
  "big_state = snd (upload utc_engine [big_A, big_B, big_C] no_data)"

text \<open>A sheet that has a column named \<open>DateOnly\<close> of its own.\<close>

definition shadow_row :: raw_row where
  "shadow_row = [''Date'' \<mapsto> CNum (Finite 45001), ''DateOnly'' \<mapsto> CStr ''x'']"

section \<open>Properties\<close>

subsection \<open>Rounding\<close>

lemma floor_rat_numeral:
  "\<lfloor>(numeral a :: rat) / numeral b\<rfloor> = numeral a div numeral b"
  using floor_divide_of_int_eq [of "numeral a" "numeral b", where ?'a = rat] by simp

lemma floor_rat_one_numeral:
  "\<lfloor>(1 :: rat) / numeral b\<rfloor> = 1 div numeral b"
  using floor_divide_of_int_eq [of 1 "numeral b", where ?'a = rat] by simp

lemmas fl_eval =
  fl_def round_pos_def or_infinity_def round_at_def round_even_def exponent_of_def
  exponent_below_def pow2_def bit_length.simps floor_rat_numeral floor_rat_one_numeral


lemma bit_length_bounds:
  "0 < n \<Longrightarrow> 1 \<le> bit_length n \<and> 2 ^ nat (bit_length n - 1) \<le> n \<and> n < 2 ^ nat (bit_length n)"
proof (induction n rule: bit_length.induct)
  case (1 n)
  show ?case
  proof (cases "n = 1")
    case True
    then show ?thesis by (simp add: bit_length.simps)
  next
    case False
    with "1.prems" have h: "0 < n div 2" by simp
    from "1.IH" "1.prems" h
    have ih: "1 \<le> bit_length (n div 2)"
      "2 ^ nat (bit_length (n div 2) - 1) \<le> n div 2" "n div 2 < 2 ^ nat (bit_length (n div 2))"
      by simp_all
    have b: "bit_length n = 1 + bit_length (n div 2)"
      using "1.prems" by (subst bit_length.simps) simp
    have n1: "nat (bit_length n - 1) = Suc (nat (bit_length (n div 2) - 1))"
      using ih(1) b by simp
    have n2: "nat (bit_length n) = Suc (nat (bit_length (n div 2)))"
      using ih(1) b by simp
    have "2 * 2 ^ nat (bit_length (n div 2) - 1) \<le> n"
      using ih(2) by linarith
    then have lo: "2 ^ nat (bit_length n - 1) \<le> n"
      unfolding n1 by simp
    have "n < 2 * 2 ^ nat (bit_length (n div 2))"
      using ih(3) by linarith
    then have hi: "n < 2 ^ nat (bit_length n)"
      unfolding n2 by simp
    have "1 \<le> bit_length n"
      using b ih(1) by linarith
    then show ?thesis
      using lo hi by blast
  qed
qed

lemma round_even_of_int: "round_even (of_int m) = m"
  by (simp add: round_even_def)

lemma fl_of_int_pos:
  assumes "0 < k" and "k \<le> 2 ^ 53"
  shows "fl (of_int k) = Finite (of_int k)"
proof -
  define e where "e = bit_length k - 1"
  have bl: "1 \<le> bit_length k" "2 ^ nat e \<le> k" "k < 2 ^ nat (bit_length k)"
    using bit_length_bounds [OF assms(1)] by (simp_all add: e_def)
  have e0: "0 \<le> e" using bl(1) by (simp add: e_def)
  have ex: "exponent_of (of_int k) = e"
    using assms(1) by (simp add: exponent_of_def e_def)
  have "(2::int) ^ nat e \<le> 2 ^ 53" using bl(2) assms(2) by linarith
  then have e53: "nat e \<le> 53"
    using power_le_imp_le_exp [of "2::int" "nat e" 53] by simp
  have r: "round_at e (of_int k) = of_int k"
  proof (cases "e \<le> 52")
    case True
    then have p: "pow2 (e - 52) = 1 / 2 ^ nat (52 - e)"
      by (auto simp: pow2_def)
    have "rat_of_int k / pow2 (e - 52) = of_int (k * 2 ^ nat (52 - e))"
      by (simp add: p)
    then have "round_even (rat_of_int k / pow2 (e - 52)) = k * 2 ^ nat (52 - e)"
      by (simp only: round_even_of_int)
    then show ?thesis
      by (simp add: round_at_def p)
  next
    case False
    then have e_eq: "e = 53" using e53 e0 by linarith
    then have "(2::int) ^ 53 \<le> k" using bl(2) by simp
    then have k: "k = 2 ^ 53" using assms(2) by linarith
    show ?thesis
      by (simp add: round_at_def e_eq pow2_def k round_even_def floor_rat_numeral)
  qed
  have "rat_of_int k < pow2 1024"
  proof -
    have "rat_of_int k \<le> of_int (2 ^ 53)"
      using assms(2) by (simp only: of_int_le_iff)
    then have "rat_of_int k \<le> 2 ^ 53" by simp
    moreover have "(2::rat) ^ 53 < 2 ^ 1024"
      by (rule power_strict_increasing) simp_all
    moreover have "pow2 1024 = 2 ^ 1024"
      by (simp add: pow2_def)
    ultimately show ?thesis by (simp only:)
  qed
  then have "or_infinity (rat_of_int k) = Finite (rat_of_int k)"
    by (simp only: or_infinity_def not_le [symmetric] if_False)
  moreover have "max e (- 1022) = e" using e0 by simp
  moreover have "0 < rat_of_int k" using assms(1) by simp
  ultimately show ?thesis
    by (simp add: fl_def round_pos_def ex r)
qed

lemma fl_of_int:
  assumes "\<bar>k\<bar> \<le> 2 ^ 53"
  shows "fl (of_int k) = Finite (of_int k)"
proof -
  consider "k = 0" | "0 < k" | "k < 0" by linarith
  then show ?thesis
  proof cases
    case 1
    then show ?thesis by (simp add: fl_def)
  next
    case 2
    then show ?thesis using assms fl_of_int_pos [of k] by simp
  next
    case 3
    then have "fl (of_int (- k)) = Finite (of_int (- k))"
      using assms fl_of_int_pos [of "- k"] by simp
    then show ?thesis
      using 3 by (simp add: fl_def)
  qed
qed

subsection \<open>Serial numbers\<close>

lemma split_on_append:
  "c \<notin> set a \<Longrightarrow> split_on c (a @ c # b) = a # split_on c b"
  by (induction a) (auto split: list.splits)

lemma digit_char_is_digit: "digit_char d \<in> set ''0123456789''"
proof -
  have "d mod 10 < length ''0123456789''" by simp
  then show ?thesis unfolding digit_char_def by (rule nth_mem)
qed

lemma digit_char_not_T: "CHR ''T'' \<noteq> digit_char d"
  using digit_char_is_digit [of d] by auto

lemma T_not_in_iso_date: "CHR ''T'' \<notin> set (iso_date ymd)"
  by (cases ymd) (simp add: iso_date_def iso_year_def digits2_def digits4_def digits6_def digit_char_not_T)

lemma iso_date_only_Some:
  "iso_date_only (Some t) = Inr (iso_date (civil_from_days (t div msPerDay)))"
  by (simp add: iso_date_only_def split_on_append [OF T_not_in_iso_date])

lemma iso_date_only_None: "iso_date_only None = Inl RangeError"
  by (simp add: iso_date_only_def)

lemma truncate_rat_of_int: "truncate_rat (of_int k) = k"
  by (simp add: truncate_rat_def)

lemma TimeClip_of_int:
  "TimeClip (Finite (of_int k)) = (if 8640000000000000 < \<bar>k\<bar> then None else Some k)"
proof -
  have "(8640000000000000 < \<bar>rat_of_int k\<bar>) = (8640000000000000 < \<bar>k\<bar>)"
    by (metis of_int_abs of_int_less_iff of_int_numeral)
  then show ?thesis by (simp add: truncate_rat_of_int)
qed

lemmas calendar_eval =
  days_from_civil_def days_of_march_year_def march_year_def march_day_def
  civil_from_days_def civil_of_doe_def civil_of_yoe_def civil_of_doy_def
  iso_date_def iso_year_def digits2_def digits4_def digits6_def digit_char_def
  msPerDay_def

lemmas parse_eval =
  Date_parse_def parse_iso_date_def utc_midnight_def number_of_digits_def is_digit_def
  digit_val_def days_in_month_def leap_year_def

lemma utc_engine_simps:
  "localTZA utc_engine = 0" "parse_other utc_engine = v8_date_only"
  "parseFloat_str utc_engine s = NaN"
  by (simp_all add: utc_engine_def)

lemma epoch_day_number: "days_from_civil 1899 12 30 = - 25569"
  by (simp add: calendar_eval)

lemma excelEpoch_zero: "localTZA env = 0 \<Longrightarrow> excelEpoch env = - 2209161600000"
  by (simp add: excelEpoch_def epoch_day_number msPerDay_def)

lemma js_sub_one: "js_sub (Finite q) (Finite 1) = fl (q - 1)"
  by (simp add: js_sub_def)

lemma instant_exact:
  assumes "fl (q - 1) = Finite (q - 1)"
    and "fl ((q - 1) * 86400000) = Finite ((q - 1) * 86400000)"
    and "fl (e + (q - 1) * 86400000) = Finite (e + (q - 1) * 86400000)"
  shows "js_add (Finite e) (js_mul (js_sub (Finite q) (Finite 1)) (Finite 86400000))
           = Finite (e + (q - 1) * 86400000)"
  by (simp only: js_sub_one assms js_mul.simps js_add.simps)

lemma instant_of_int:
  assumes "\<bar>(k - 1) * 86400000\<bar> \<le> 2 ^ 53" and "\<bar>e + (k - 1) * 86400000\<bar> \<le> 2 ^ 53"
  shows "js_add (Finite (of_int e)) (js_mul (js_sub (Finite (of_int k)) (Finite 1)) (Finite 86400000))
           = Finite (of_int (e + (k - 1) * 86400000))"
proof -
  have "\<bar>k - 1\<bar> \<le> 2 ^ 53" using assms(1) by simp
  then have "fl (of_int (k - 1)) = Finite (of_int (k - 1))" by (rule fl_of_int)
  then have a: "fl (of_int k - 1) = Finite (of_int k - 1)" by simp
  have "fl (of_int ((k - 1) * 86400000)) = Finite (of_int ((k - 1) * 86400000))"
    using assms(1) by (rule fl_of_int)
  then have b: "fl ((of_int k - 1) * 86400000) = Finite ((of_int k - 1) * 86400000)" by simp
  have "fl (of_int (e + (k - 1) * 86400000)) = Finite (of_int (e + (k - 1) * 86400000))"
    using assms(2) by (rule fl_of_int)
  then have c: "fl (of_int e + (of_int k - 1) * 86400000)
                  = Finite (of_int e + (of_int k - 1) * 86400000)" by simp
  show ?thesis
    using instant_exact [OF a b c] by simp
qed

lemma try_number:
  "parseExcelDate_try env (CNum n)
     = (case TimeClip (js_add (Finite (of_int (excelEpoch env)))
                         (js_mul (js_sub n (Finite 1)) (Finite 86400000))) of
          None \<Rightarrow> Inl RangeError
        | Some t \<Rightarrow> Inr (Some (iso_date (civil_from_days (t div msPerDay)))))"
  by (simp add: parseExcelDate_try_def iso_date_only_Some iso_date_only_None split: option.splits)



lemma serial_of_int:
  assumes "\<bar>(k - 1) * 86400000\<bar> \<le> 2 ^ 53" and "\<bar>excelEpoch env + (k - 1) * 86400000\<bar> \<le> 2 ^ 53"
  shows "parseExcelDate_try env (CNum (Finite (of_int k)))
     = (if 8640000000000000 < \<bar>excelEpoch env + (k - 1) * 86400000\<bar> then Inl RangeError
        else Inr (Some (iso_date (civil_from_days
               ((excelEpoch env + (k - 1) * 86400000) div msPerDay)))))"
  unfolding try_number instant_of_int [OF assms] TimeClip_of_int by simp






subsection \<open>Absent values and exceptions\<close>

text \<open>
  C10. The serial 0 gives \<open>null\<close> and not a date: every falsy value (0, the empty string,
  \<open>null\<close>, \<open>undefined\<close>) is answered before the branch on numbers, which would have
  given the day before the epoch.
\<close>

theorem parseExcelDate_zero_is_absent:
  "parseExcelDate env (CNum (Finite 0)) = Inr None
   \<and> parseExcelDate env (CStr []) = Inr None
   \<and> parseExcelDate env CNull = Inr None
   \<and> parseExcelDate env CUndefined = Inr None
   \<and> (\<not> truthy v \<longrightarrow> parseExcelDate env v = Inr None)
   \<and> (localTZA env = 0 \<longrightarrow> parseExcelDate_try env (CNum (Finite 0)) = Inr (Some ''1899-12-29''))"
proof -
  have "parseExcelDate_try env (CNum (Finite 0)) = Inr (Some ''1899-12-29'')"
    if "localTZA env = 0"
  proof -
    have e: "excelEpoch env = - 2209161600000"
      using that by (rule excelEpoch_zero)
    have "parseExcelDate_try env (CNum (Finite (of_int 0))) = Inr (Some ''1899-12-29'')"
      by (subst serial_of_int) (simp_all add: e calendar_eval)
    then show ?thesis by simp
  qed
  then show ?thesis by (simp add: parseExcelDate_def)
qed

theorem parseExcelDate_zero_is_absent_witness:
  "parseExcelDate utc_engine (CNum (Finite 0)) = Inr None
   \<and> \<not> truthy (CNum NaN) \<and> parseExcelDate utc_engine (CNum NaN) = Inr None
   \<and> localTZA utc_engine = 0
   \<and> parseExcelDate_try utc_engine (CNum (Finite 0)) = Inr (Some ''1899-12-29'')"
  using parseExcelDate_zero_is_absent [of utc_engine "CNum NaN"]
  by (simp add: utc_engine_simps)

lemma split_no_sep: "c \<notin> set s \<Longrightarrow> split_on c s = [s]"
  by (induction s) auto

lemma try_separators_no_sep:
  "set seps \<inter> set s = {} \<Longrightarrow> try_separators env s seps = None"
  by (induction seps) (auto simp: split_no_sep)

text \<open>
  C6. \<open>parseExcelDate\<close> never throws: whatever the value, it returns, and where its
  \<^verbatim>\<open>try\<close> block throws it returns \<open>null\<close>. The empty string gives \<open>null\<close>, and so does
  \<open>not a date\<close> on every engine whose \<^verbatim>\<open>Date.parse\<close> rejects that string.
\<close>

theorem parseExcelDate_never_throws:
  "(\<exists>r. parseExcelDate env v = Inr r)
   \<and> (parseExcelDate_try env v = Inl e \<longrightarrow> parseExcelDate env v = Inr None)
   \<and> parseExcelDate env (CStr '''') = Inr None
   \<and> (parse_other env ''not a date'' = None
        \<longrightarrow> parseExcelDate env (CStr ''not a date'') = Inr None)"
proof -
  have "parseExcelDate env (CStr ''not a date'') = Inr None"
    if "parse_other env ''not a date'' = None"
  proof -
    have "try_separators env ''not a date'' separators = None"
      by (rule try_separators_no_sep) (simp add: separators_def)
    moreover have "Date_parse env ''not a date'' = None"
      using that by (simp add: Date_parse_def parse_iso_date_def is_digit_def)
    ultimately show ?thesis
      by (simp add: parseExcelDate_def parseExcelDate_try_def)
  qed
  moreover have "\<exists>r. parseExcelDate env v = Inr r"
    by (simp add: parseExcelDate_def split: sum.splits)
  ultimately show ?thesis by (simp add: parseExcelDate_def)
qed

theorem parseExcelDate_never_throws_witness:
  "parseExcelDate_try utc_engine (CNum PosInf) = Inl RangeError
   \<and> parseExcelDate utc_engine (CNum PosInf) = Inr None
   \<and> parse_other utc_engine ''not a date'' = None
   \<and> parseExcelDate utc_engine (CStr ''not a date'') = Inr None"
proof -
  have "parseExcelDate_try utc_engine (CNum PosInf) = Inl RangeError"
    by (simp add: parseExcelDate_try_def js_sub_def signed_inf_def iso_date_only_None)
  then show ?thesis
    using parseExcelDate_never_throws [of utc_engine "CNum PosInf" RangeError]
    by (simp add: utc_engine_simps v8_date_only_def is_digit_def)
qed

subsection \<open>Text values\<close>

lemma first_valid_Nil: "first_valid env [] = None"
  by (simp add: first_valid_def)

lemma first_valid_Cons:
  "first_valid env (c # cs) =
     (case Date_parse env c of
        Some t \<Rightarrow> Some (iso_date (civil_from_days (t div msPerDay)))
      | None \<Rightarrow> first_valid env cs)"
  by (simp add: first_valid_def split: option.splits)

lemma first_valid_append:
  "first_valid env (xs @ ys) =
     (case first_valid env xs of Some r \<Rightarrow> Some r | None \<Rightarrow> first_valid env ys)"
  by (induction xs) (simp_all add: first_valid_Nil first_valid_Cons split: option.splits)

lemma try_formats_first_valid:
  "try_formats env fs = map_option Inr (first_valid env fs)"
  by (induction fs)
     (simp_all add: first_valid_Nil first_valid_Cons iso_date_only_Some split: option.splits)

lemma try_separators_first_valid:
  "try_separators env s seps
     = map_option Inr (first_valid env (concat (map (\<lambda>sep. readings_for sep s) seps)))"
proof (induction seps)
  case Nil
  show ?case by (simp add: first_valid_Nil)
next
  case (Cons sep seps)
  show ?case
  proof (cases "\<exists>a b c. split_on sep s = [a, b, c]")
    case True
    then obtain a b c where abc: "split_on sep s = [a, b, c]" by blast
    have "try_separators env s (sep # seps)
            = (case try_formats env (readings_for sep s) of
                 Some r \<Rightarrow> Some r
               | None \<Rightarrow> try_separators env s seps)"
      using abc by (simp add: readings_for_def del: try_formats.simps)
    moreover have "first_valid env (concat (map (\<lambda>sep. readings_for sep s) (sep # seps)))
            = (case first_valid env (readings_for sep s) of
                 Some r \<Rightarrow> Some r
               | None \<Rightarrow> first_valid env (concat (map (\<lambda>sep. readings_for sep s) seps)))"
      by (simp only: list.map concat.simps first_valid_append)
    ultimately show ?thesis
      using Cons.IH by (simp add: try_formats_first_valid split: option.splits)
  next
    case False
    then have r: "readings_for sep s = []"
      by (auto simp: readings_for_def split: list.splits)
    have "try_separators env s (sep # seps) = try_separators env s seps"
      using False by (auto split: list.splits)
    then show ?thesis
      using Cons.IH by (simp add: r)
  qed
qed

lemma parseExcelDate_string:
  assumes "s \<noteq> []"
  shows "parseExcelDate env (CStr s) = Inr (first_valid env (interpretations s))"
proof -
  have last: "first_valid env [s] = map_option (\<lambda>t. iso_date (civil_from_days (t div msPerDay))) (Date_parse env s)"
    by (simp add: first_valid_Cons first_valid_Nil split: option.splits)
  have "parseExcelDate_try env (CStr s) = Inr (first_valid env (interpretations s))"
    by (simp add: parseExcelDate_try_def try_separators_first_valid interpretations_def
          separators_def first_valid_append last iso_date_only_Some split: option.splits)
  then show ?thesis
    using assms by (simp add: parseExcelDate_def)
qed

lemma readings_for_other: "length (split_on x s) \<noteq> 3 \<Longrightarrow> readings_for x s = []"
  by (auto simp: readings_for_def split: list.splits)

lemma readings_for_three:
  "split_on sep s = [a, b, c]
     \<Longrightarrow> readings_for sep s = [c @ ''-'' @ b @ ''-'' @ a, c @ ''-'' @ a @ ''-'' @ b]"
  by (simp add: readings_for_def)

lemma interpretations_three:
  assumes "sep \<in> {CHR ''-'', CHR ''/'', CHR ''.''}" and "split_on sep s = [a, b, c]"
    and "\<forall>x\<in>{CHR ''-'', CHR ''/'', CHR ''.''}. x \<noteq> sep \<longrightarrow> length (split_on x s) \<noteq> 3"
  shows "interpretations s = [c @ ''-'' @ b @ ''-'' @ a, c @ ''-'' @ a @ ''-'' @ b, s]"
proof -
  consider "sep = CHR ''-''" | "sep = CHR ''/''" | "sep = CHR ''.''"
    using assms(1) by auto
  then show ?thesis
  proof cases
    case 1
    then show ?thesis
      using assms(2,3) by (simp add: interpretations_def readings_for_three readings_for_other)
  next
    case 2
    then show ?thesis
      using assms(2,3) by (simp add: interpretations_def readings_for_three readings_for_other)
  next
    case 3
    then show ?thesis
      using assms(2,3) by (simp add: interpretations_def readings_for_three readings_for_other)
  qed
qed

lemma interpretations_examples:
  "interpretations ''31-01-2024'' = [''2024-01-31'', ''2024-31-01'', ''31-01-2024'']"
  "interpretations ''31/01/2024'' = [''2024-01-31'', ''2024-31-01'', ''31/01/2024'']"
  "interpretations ''31.01.2024'' = [''2024-01-31'', ''2024-31-01'', ''31.01.2024'']"
  "interpretations ''03-04-2024'' = [''2024-04-03'', ''2024-03-04'', ''03-04-2024'']"
  "interpretations ''31-02-2023'' = [''2023-02-31'', ''2023-31-02'', ''31-02-2023'']"
  by (simp_all add: interpretations_def readings_for_def)

lemma Date_parse_20240131: "Date_parse env ''2024-01-31'' = Some 1706659200000"
  by (simp add: parse_eval calendar_eval)

lemma Date_parse_20240403: "Date_parse env ''2024-04-03'' = Some 1712102400000"
  by (simp add: parse_eval calendar_eval)

lemma Date_parse_20240304: "Date_parse env ''2024-03-04'' = Some 1709510400000"
  by (simp add: parse_eval calendar_eval)

lemma iso_20240131: "iso_date (civil_from_days (1706659200000 div msPerDay)) = ''2024-01-31''"
  by (simp add: calendar_eval)

lemma iso_20240403: "iso_date (civil_from_days (1712102400000 div msPerDay)) = ''2024-04-03''"
  by (simp add: calendar_eval)

text \<open>
  C4, amended. On a text value \<open>parseExcelDate\<close> returns the canonical date of the first
  reading that \<^verbatim>\<open>Date.parse\<close> accepts, among the readings in the order of
  \<open>interpretations\<close>, and \<open>null\<close> when none is accepted; for a string of three components
  under one of the separators \<open>-\<close>, \<open>/\<close> and \<open>.\<close> these are the day-first reading, the
  month-first reading and the string itself. So \<open>31-01-2024\<close>, \<open>31/01/2024\<close> and
  \<open>31.01.2024\<close> give \<open>2024-01-31\<close>, and \<open>03-04-2024\<close> is read day-first as the third of
  April.
\<close>

theorem parseExcelDate_text:
  "(s \<noteq> [] \<longrightarrow> parseExcelDate env (CStr s) = Inr (first_valid env (interpretations s)))
   \<and> (sep \<in> {CHR ''-'', CHR ''/'', CHR ''.''} \<and> split_on sep s = [a, b, c]
        \<and> (\<forall>x\<in>{CHR ''-'', CHR ''/'', CHR ''.''}. x \<noteq> sep \<longrightarrow> length (split_on x s) \<noteq> 3)
      \<longrightarrow> interpretations s = [c @ ''-'' @ b @ ''-'' @ a, c @ ''-'' @ a @ ''-'' @ b, s])
   \<and> parseExcelDate env (CStr ''31-01-2024'') = Inr (Some ''2024-01-31'')
   \<and> parseExcelDate env (CStr ''31/01/2024'') = Inr (Some ''2024-01-31'')
   \<and> parseExcelDate env (CStr ''31.01.2024'') = Inr (Some ''2024-01-31'')
   \<and> parseExcelDate env (CStr ''03-04-2024'') = Inr (Some ''2024-04-03'')"
proof -
  have "parseExcelDate env (CStr ''31-01-2024'') = Inr (Some ''2024-01-31'')"
    "parseExcelDate env (CStr ''31/01/2024'') = Inr (Some ''2024-01-31'')"
    "parseExcelDate env (CStr ''31.01.2024'') = Inr (Some ''2024-01-31'')"
    by (simp_all add: parseExcelDate_string interpretations_examples first_valid_Cons
          Date_parse_20240131 iso_20240131)
  moreover have "parseExcelDate env (CStr ''03-04-2024'') = Inr (Some ''2024-04-03'')"
    by (simp add: parseExcelDate_string interpretations_examples first_valid_Cons
          Date_parse_20240403 iso_20240403)
  ultimately show ?thesis
    using parseExcelDate_string [of s env] interpretations_three [of sep s a b c] by blast
qed

theorem parseExcelDate_text_witness:
  "''03/04/2024'' \<noteq> []
   \<and> split_on CHR ''/'' ''03/04/2024'' = [''03'', ''04'', ''2024'']
   \<and> length (split_on CHR ''-'' ''03/04/2024'') \<noteq> 3
   \<and> length (split_on CHR ''.'' ''03/04/2024'') \<noteq> 3
   \<and> interpretations ''03/04/2024'' = [''2024-04-03'', ''2024-03-04'', ''03/04/2024'']
   \<and> Date_parse utc_engine ''2024-04-03'' \<noteq> None
   \<and> Date_parse utc_engine ''2024-03-04'' \<noteq> None
   \<and> parseExcelDate utc_engine (CStr ''03/04/2024'') = Inr (Some ''2024-04-03'')"
  using parseExcelDate_text [of "''03/04/2024''" utc_engine "CHR ''/''" "''03''" "''04''" "''2024''"]
  by (simp add: Date_parse_20240403 Date_parse_20240304 first_valid_Cons iso_20240403)

text \<open>
  On an engine that reads the date-only form as V8 does, \<open>31-02-2023\<close> gives the third of
  March: the day-first reading \<open>2023-02-31\<close> is no calendar date, February 2023 having 28
  days, yet it is accepted; the month-first reading and the string itself are rejected.
\<close>

theorem overflowing_day_counterexample:
  "parseExcelDate utc_engine (CStr ''31-02-2023'') = Inr (Some ''2023-03-03'')
   \<and> interpretations ''31-02-2023'' = [''2023-02-31'', ''2023-31-02'', ''31-02-2023'']
   \<and> days_in_month 2023 2 = 28
   \<and> Date_parse utc_engine ''2023-31-02'' = None
   \<and> Date_parse utc_engine ''31-02-2023'' = None"
proof -
  have a: "Date_parse utc_engine ''2023-02-31'' = Some 1677801600000"
    by (simp add: parse_eval calendar_eval utc_engine_simps v8_date_only_def overflowing_day_def)
  have b: "Date_parse utc_engine ''2023-31-02'' = None"
    "Date_parse utc_engine ''31-02-2023'' = None"
    by (simp_all add: parse_eval calendar_eval utc_engine_simps v8_date_only_def
          overflowing_day_def)
  have c: "iso_date (civil_from_days (1677801600000 div msPerDay)) = ''2023-03-03''"
    by (simp add: calendar_eval)
  have "parseExcelDate utc_engine (CStr ''31-02-2023'') = Inr (Some ''2023-03-03'')"
    by (simp add: parseExcelDate_string interpretations_examples first_valid_Cons a c)
  then show ?thesis
    by (simp add: b interpretations_examples days_in_month_def leap_year_def)
qed

subsection \<open>The filter\<close>




lemma process_row_45001:
  assumes "row ''Date'' = Some (CNum (Finite 45001))"
  shows "process_row utc_engine row i
           = Some \<lparr>cols = row, RowIndex = i + 2, DateOnly = Some ''2023-03-15''\<rparr>"
proof -
  have u: "excelEpoch utc_engine = - 2209161600000"
    by (simp add: excelEpoch_zero utc_engine_simps)
  have "parseExcelDate_try utc_engine (CNum (Finite (of_int 45001))) = Inr (Some ''2023-03-15'')"
    by (subst serial_of_int) (simp_all add: u calendar_eval)
  then show ?thesis
    using assms by (simp add: process_row_def read_prop_def parseExcelDate_def)
qed

lemma process_row_45002:
  assumes "row ''Date'' = Some (CNum (Finite 45002))"
  shows "process_row utc_engine row i
           = Some \<lparr>cols = row, RowIndex = i + 2, DateOnly = Some ''2023-03-16''\<rparr>"
proof -
  have u: "excelEpoch utc_engine = - 2209161600000"
    by (simp add: excelEpoch_zero utc_engine_simps)
  have "parseExcelDate_try utc_engine (CNum (Finite (of_int 45002))) = Inr (Some ''2023-03-16'')"
    by (subst serial_of_int) (simp_all add: u calendar_eval)
  then show ?thesis
    using assms by (simp add: process_row_def read_prop_def parseExcelDate_def)
qed

lemma processed_row_A:
  "process_row utc_engine row_A 0
     = Some \<lparr>cols = row_A, RowIndex = 2, DateOnly = Some ''2023-03-15''\<rparr>"
proof -
  have "row_A ''Date'' = Some (CNum (Finite 45001))"
    by (simp add: row_A_def)
  then show ?thesis by (simp add: process_row_45001)
qed

lemma processed_row_B:
  "process_row utc_engine row_B (Suc 0)
     = Some \<lparr>cols = row_B, RowIndex = 3, DateOnly = Some ''2023-03-16''\<rparr>"
proof -
  have "row_B ''Date'' = Some (CNum (Finite 45002))"
    by (simp add: row_B_def)
  then show ?thesis by (simp add: process_row_45002)
qed

lemma processedData_two:
  "processedData env [a, b]
     = List.map_filter id [process_row env a 0, process_row env b (Suc 0)]"
  by (simp add: processedData_def List.map_filter_def upt_rec)

lemma processedData_sample:
  "processedData utc_engine [row_A, row_B]
     = [\<lparr>cols = row_A, RowIndex = 2, DateOnly = Some ''2023-03-15''\<rparr>,
        \<lparr>cols = row_B, RowIndex = 3, DateOnly = Some ''2023-03-16''\<rparr>]"
  by (simp add: processedData_two processed_row_A processed_row_B List.map_filter_def)

lemma get_cols:
  "k \<noteq> ''RowIndex'' \<Longrightarrow> k \<noteq> ''DateOnly'' \<Longrightarrow> get r k = read_prop (cols r) k"
  by (simp add: get_def as_object_def read_prop_def)

lemma merchant_A: "get \<lparr>cols = row_A, RowIndex = i, DateOnly = d\<rparr> ''Merchant Name'' = CStr ''A''"
  by (simp add: get_cols read_prop_def row_A_def)

lemma merchant_B: "get \<lparr>cols = row_B, RowIndex = i, DateOnly = d\<rparr> ''Merchant Name'' = CStr ''B''"
  by (simp add: get_cols read_prop_def row_B_def)

lemma sample_state_eq:
  "fileData sample_state
     = Some \<lparr>fd_processedData = processedData utc_engine [row_A, row_B],
             fd_merchants = merchants (processedData utc_engine [row_A, row_B])\<rparr>"
  by (simp add: sample_state_def upload_def)

lemma rest_of_no_columns:
  assumes "row ''RowIndex'' = None" and "row ''DateOnly'' = None"
  shows "rest_of \<lparr>cols = row, RowIndex = i, DateOnly = d\<rparr> = row"
  using assms by (auto simp: rest_of_def as_object_def)

lemma rest_of_A: "rest_of \<lparr>cols = row_A, RowIndex = i, DateOnly = d\<rparr> = row_A"
  by (rule rest_of_no_columns) (simp_all add: row_A_def)

lemma rest_of_B: "rest_of \<lparr>cols = row_B, RowIndex = i, DateOnly = d\<rparr> = row_B"
  by (rule rest_of_no_columns) (simp_all add: row_B_def)

lemma floor_half: "\<lfloor>1 / 2 :: rat\<rfloor> = 0"
  by (simp add: floor_rat_one_numeral)

lemma fl_small_ints:
  "fl 0 = Finite 0" "fl 1 = Finite 1" "fl 2 = Finite 2" "fl 3 = Finite 3" "fl 5 = Finite 5"
  "fl 50 = Finite 50" "fl 100 = Finite 100" "fl 150 = Finite 150" "fl 250 = Finite 250"
  "fl 500 = Finite 500"
  using fl_of_int [of 0] fl_of_int [of 1] fl_of_int [of 2] fl_of_int [of 3] fl_of_int [of 5]
    fl_of_int [of 50] fl_of_int [of 100] fl_of_int [of 150] fl_of_int [of 250]
    fl_of_int [of 500]
  by simp_all

lemma fl_halves: "fl (5 / 2) = Finite (5 / 2)" "fl (15 / 2) = Finite (15 / 2)"
  by (simp_all add: fl_eval)

lemma toFixed2_examples:
  "toFixed2 (Finite 100) = Fixed2 False 10000"
  "toFixed2 (Finite 50) = Fixed2 False 5000"
  "toFixed2 (Finite 2) = Fixed2 False 200"
  "toFixed2 (Finite 1) = Fixed2 False 100"
  "toFixed2 (Finite 5) = Fixed2 False 500"
  "toFixed2 (Finite (5 / 2)) = Fixed2 False 250"
  "toFixed2 (Finite 150) = Fixed2 False 15000"
  "toFixed2 (Finite 3) = Fixed2 False 300"
  "toFixed2 (Finite (15 / 2)) = Fixed2 False 750"
  "toFixed2 (Finite 0) = Fixed2 False 0"
  by (simp_all add: floor_rat_numeral floor_rat_one_numeral)

lemma parse_back_examples:
  "parseFloat_numstr (Fixed2 False 10000) = Finite 100"
  "parseFloat_numstr (Fixed2 False 5000) = Finite 50"
  "parseFloat_numstr (Fixed2 False 200) = Finite 2"
  "parseFloat_numstr (Fixed2 False 100) = Finite 1"
  "parseFloat_numstr (Fixed2 False 500) = Finite 5"
  "parseFloat_numstr (Fixed2 False 250) = Finite (5 / 2)"
  "parseFloat_numstr (Fixed2 False 0) = Finite 0"
  by (simp_all add: fl_small_ints fl_halves)

lemma step_A:
  "summary_step utc_engine (Finite 5) m \<lparr>cols = row_A, RowIndex = i, DateOnly = d\<rparr>
     = accumulate m (CStr ''A'') (Finite 100) (Finite 2) (Finite 5)"
  by (simp add: summary_step_def get_cols read_prop_def row_A_def or_zero_def percent_of_def
        fl_small_ints)

lemma step_B:
  "summary_step utc_engine (Finite 5) m \<lparr>cols = row_B, RowIndex = i, DateOnly = d\<rparr>
     = accumulate m (CStr ''B'') (Finite 50) (Finite 1) (Finite (5 / 2))"
  by (simp add: summary_step_def get_cols read_prop_def row_B_def or_zero_def percent_of_def
        fl_small_ints fl_halves)

lemma sums_from_zero:
  "js_add (Finite 0) (Finite 100) = Finite 100" "js_add (Finite 0) (Finite 50) = Finite 50"
  "js_add (Finite 0) (Finite 2) = Finite 2" "js_add (Finite 0) (Finite 1) = Finite 1"
  "js_add (Finite 0) (Finite 5) = Finite 5" "js_add (Finite 0) (Finite (5 / 2)) = Finite (5 / 2)"
  "js_add (Finite 100) (Finite 50) = Finite 150" "js_add (Finite 2) (Finite 1) = Finite 3"
  "js_add (Finite 5) (Finite (5 / 2)) = Finite (15 / 2)"
  "js_add (Finite 0) (Finite 0) = Finite 0"
  by (simp_all add: fl_small_ints fl_halves)

lemma summaryMap_A:
  "summaryMap utc_engine (Finite 5)
     [\<lparr>cols = row_A, RowIndex = 2, DateOnly = Some ''2023-03-15''\<rparr>]
   = [(CStr ''A'', \<lparr>withdrawal = Finite 100, fee = Finite 2, percentAmount = Finite 5, count = 1\<rparr>)]"
  by (simp add: summaryMap_def step_A accumulate_def map_has_def add_to_def zero_running_def
        sums_from_zero del: js_add.simps)

lemma summaryData_A:
  "summaryData utc_engine (Finite 5)
     [\<lparr>cols = row_A, RowIndex = 2, DateOnly = Some ''2023-03-15''\<rparr>]
   = [\<lparr>Merchant = CStr ''A'', TotalWithdrawalAmount = Fixed2 False 10000,
       TotalWithdrawalFees = Fixed2 False 200, PercentAmount = Fixed2 False 500,
       TransactionCount = 1\<rparr>,
      \<lparr>Merchant = CStr ''TOTAL'', TotalWithdrawalAmount = Fixed2 False 10000,
       TotalWithdrawalFees = Fixed2 False 200, PercentAmount = Fixed2 False 500,
       TransactionCount = 1\<rparr>]"
  unfolding summaryData_def summaryMap_A
  by (simp add: merchant_row_def totals_def reduce_field_def toFixed2_examples
        parse_back_examples sums_from_zero
        del: toFixed2.simps parseFloat_numstr.simps js_add.simps)

lemma one_day_body_ok:
  "selectedMerchants one_day_body = [''A'', ''B'']"
  "percentage one_day_body = CNum (Finite 5)"
  "startDate one_day_body = ''2023-03-15''" "endDate one_day_body = ''2023-03-15''"
  "\<not> bad_percent (parseFloat utc_engine (percentage one_day_body))"
  "\<not> bad_dates utc_engine (startDate one_day_body) (endDate one_day_body)"
  by (simp_all add: one_day_body_def bad_percent_def isNaN_def bad_dates_def falsy_time_def
        parse_eval calendar_eval)

lemma filtered_one_day:
  "filteredData [''A'', ''B''] ''2023-03-15'' ''2023-03-15'' (processedData utc_engine [row_A, row_B])
     = [\<lparr>cols = row_A, RowIndex = 2, DateOnly = Some ''2023-03-15''\<rparr>]"
  by (simp add: filteredData_def processedData_sample row_matches_def merchant_A merchant_B)

lemma one_day_run:
  "generate utc_engine now one_day_body sample_state
     = (GenerateOk
          \<lparr>summary =
             [\<lparr>Merchant = CStr ''A'', TotalWithdrawalAmount = Fixed2 False 10000,
               TotalWithdrawalFees = Fixed2 False 200, PercentAmount = Fixed2 False 500,
               TransactionCount = 1\<rparr>,
              \<lparr>Merchant = CStr ''TOTAL'', TotalWithdrawalAmount = Fixed2 False 10000,
               TotalWithdrawalFees = Fixed2 False 200, PercentAmount = Fixed2 False 500,
               TransactionCount = 1\<rparr>],
           transactions = [row_A],
           outputFilename = now, dateRange = (''2023-03-15'', ''2023-03-15''),
           transactionCount = 1, merchantCount = 1\<rparr>,
        sample_state)"
  using one_day_body_ok(5,6)
  unfolding generate_def one_day_body_ok(1-4) sample_state_eq
  by (simp add: filtered_one_day summaryData_A summaryMap_A rest_of_A)



subsection \<open>The generate handler: no match, repeated calls\<close>

lemma generate_state: "snd (generate env now body st) = st"
  by (simp add: generate_def split: option.splits)

lemma generate_rows_clock:
  "rows_of (fst (generate env now1 body st)) = rows_of (fst (generate env now2 body st))"
  by (simp add: generate_def split: option.splits)

lemma sample_body_ok:
  "selectedMerchants sample_body \<noteq> []"
  "\<not> bad_percent (parseFloat utc_engine (percentage sample_body))"
  "\<not> bad_dates utc_engine (startDate sample_body) (endDate sample_body)"
  by (simp_all add: sample_body_def bad_percent_def isNaN_def bad_dates_def falsy_time_def
        parse_eval calendar_eval)

text \<open>
  C7. When no stored record passes the filter, the handler produces no summary rows; for a
  request that passed the checks of its parameters the answer is the status 404 with the
  error code \<open>NO_MATCHING_DATA\<close>.
\<close>

theorem generate_no_match:
  assumes "fileData st = Some fd"
    and "filteredData (selectedMerchants body) (startDate body) (endDate body)
           (fd_processedData fd) = []"
  shows "rows_of (fst (generate env now body st)) = None
         \<and> (selectedMerchants body \<noteq> [] \<and> \<not> bad_percent (parseFloat env (percentage body))
              \<and> \<not> bad_dates env (startDate body) (endDate body)
            \<longrightarrow> generate env now body st = (Error 404 ''NO_MATCHING_DATA'', st))"
  using assms by (simp add: generate_def)

theorem generate_no_match_witness:
  "fileData sample_state
     = Some \<lparr>fd_processedData = processedData utc_engine [row_A, row_B],
             fd_merchants = merchants (processedData utc_engine [row_A, row_B])\<rparr>
   \<and> filteredData [''A'', ''B''] ''2024-01-01'' ''2024-01-31''
        (processedData utc_engine [row_A, row_B]) = []
   \<and> \<not> bad_percent (parseFloat utc_engine (CNum (Finite 5)))
   \<and> \<not> bad_dates utc_engine ''2024-01-01'' ''2024-01-31''
   \<and> generate utc_engine 7
        \<lparr>selectedMerchants = [''A'', ''B''], percentage = CNum (Finite 5),
         startDate = ''2024-01-01'', endDate = ''2024-01-31''\<rparr> sample_state
       = (Error 404 ''NO_MATCHING_DATA'', sample_state)"
proof -
  have empty: "filteredData [''A'', ''B''] ''2024-01-01'' ''2024-01-31''
        (processedData utc_engine [row_A, row_B]) = []"
    by (simp add: filteredData_def processedData_sample row_matches_def)
  show ?thesis
    using generate_no_match [of sample_state
        "\<lparr>fd_processedData = processedData utc_engine [row_A, row_B],
          fd_merchants = merchants (processedData utc_engine [row_A, row_B])\<rparr>"
        "\<lparr>selectedMerchants = [''A'', ''B''], percentage = CNum (Finite 5),
         startDate = ''2024-01-01'', endDate = ''2024-01-31''\<rparr>" utc_engine 7]
    by (simp add: sample_state_eq empty bad_percent_def isNaN_def bad_dates_def falsy_time_def
          parse_eval calendar_eval)
qed

text \<open>
  C8. The handler hands the stored data back as it received them, so a second call with the
  same arguments runs on the same data; the two calls give the same summary rows and the
  same exported rows, whatever the clock says, and the same answer when the clock agrees.
\<close>

theorem generate_idempotent:
  assumes "generate env now1 body st = (r1, st1)"
    and "generate env now2 body st1 = (r2, st2)"
  shows "st1 = st \<and> st2 = st \<and> rows_of r1 = rows_of r2 \<and> (now1 = now2 \<longrightarrow> r1 = r2)"
proof -
  have s1: "st1 = st"
    using assms(1) generate_state [of env now1 body st] by simp
  have s2: "st2 = st"
    using assms(2) generate_state [of env now2 body st1] s1 by simp
  have "r1 = fst (generate env now1 body st)" "r2 = fst (generate env now2 body st)"
    using assms s1 by simp_all
  then show ?thesis
    using s1 s2 generate_rows_clock [of env now1 body st now2] by auto
qed

lemma filtered_sample:
  "filteredData [''A'', ''B''] ''2023-03-15'' ''2023-03-16'' (processedData utc_engine [row_A, row_B])
     = [\<lparr>cols = row_A, RowIndex = 2, DateOnly = Some ''2023-03-15''\<rparr>,
        \<lparr>cols = row_B, RowIndex = 3, DateOnly = Some ''2023-03-16''\<rparr>]"
  by (simp add: filteredData_def processedData_sample row_matches_def merchant_A merchant_B)

lemma summaryMap_sample:
  "summaryMap utc_engine (Finite 5)
     [\<lparr>cols = row_A, RowIndex = 2, DateOnly = Some ''2023-03-15''\<rparr>,
      \<lparr>cols = row_B, RowIndex = 3, DateOnly = Some ''2023-03-16''\<rparr>]
   = [(CStr ''A'', \<lparr>withdrawal = Finite 100, fee = Finite 2, percentAmount = Finite 5, count = 1\<rparr>),
      (CStr ''B'', \<lparr>withdrawal = Finite 50, fee = Finite 1, percentAmount = Finite (5 / 2), count = 1\<rparr>)]"
  by (simp add: summaryMap_def step_A step_B accumulate_def map_has_def add_to_def
        zero_running_def sums_from_zero del: js_add.simps)

lemma summaryData_sample:
  "summaryData utc_engine (Finite 5)
     [\<lparr>cols = row_A, RowIndex = 2, DateOnly = Some ''2023-03-15''\<rparr>,
      \<lparr>cols = row_B, RowIndex = 3, DateOnly = Some ''2023-03-16''\<rparr>]
   = [\<lparr>Merchant = CStr ''A'', TotalWithdrawalAmount = Fixed2 False 10000,
       TotalWithdrawalFees = Fixed2 False 200, PercentAmount = Fixed2 False 500,
       TransactionCount = 1\<rparr>,
      \<lparr>Merchant = CStr ''B'', TotalWithdrawalAmount = Fixed2 False 5000,
       TotalWithdrawalFees = Fixed2 False 100, PercentAmount = Fixed2 False 250,
       TransactionCount = 1\<rparr>,
      \<lparr>Merchant = CStr ''TOTAL'', TotalWithdrawalAmount = Fixed2 False 15000,
       TotalWithdrawalFees = Fixed2 False 300, PercentAmount = Fixed2 False 750,
       TransactionCount = 2\<rparr>]"
  unfolding summaryData_def summaryMap_sample
  by (simp add: merchant_row_def totals_def reduce_field_def toFixed2_examples
        parse_back_examples sums_from_zero
        del: toFixed2.simps parseFloat_numstr.simps js_add.simps)

theorem generate_idempotent_witness:
  "generate utc_engine 1 sample_body sample_state
     = (GenerateOk
          \<lparr>summary =
             [\<lparr>Merchant = CStr ''A'', TotalWithdrawalAmount = Fixed2 False 10000,
               TotalWithdrawalFees = Fixed2 False 200, PercentAmount = Fixed2 False 500,
               TransactionCount = 1\<rparr>,
              \<lparr>Merchant = CStr ''B'', TotalWithdrawalAmount = Fixed2 False 5000,
               TotalWithdrawalFees = Fixed2 False 100, PercentAmount = Fixed2 False 250,
               TransactionCount = 1\<rparr>,
              \<lparr>Merchant = CStr ''TOTAL'', TotalWithdrawalAmount = Fixed2 False 15000,
               TotalWithdrawalFees = Fixed2 False 300, PercentAmount = Fixed2 False 750,
               TransactionCount = 2\<rparr>],
           transactions =
             map rest_of
               [\<lparr>cols = row_A, RowIndex = 2, DateOnly = Some ''2023-03-15''\<rparr>,
                \<lparr>cols = row_B, RowIndex = 3, DateOnly = Some ''2023-03-16''\<rparr>],
           outputFilename = 1, dateRange = (''2023-03-15'', ''2023-03-16''),
           transactionCount = 2, merchantCount = 2\<rparr>,
        sample_state)
   \<and> rows_of (fst (generate utc_engine 1 sample_body sample_state))
       = rows_of (fst (generate utc_engine 2 sample_body sample_state))
   \<and> snd (generate utc_engine 2 sample_body sample_state) = sample_state"
proof -
  have run: "generate utc_engine now sample_body sample_state
     = (GenerateOk
          \<lparr>summary =
             [\<lparr>Merchant = CStr ''A'', TotalWithdrawalAmount = Fixed2 False 10000,
               TotalWithdrawalFees = Fixed2 False 200, PercentAmount = Fixed2 False 500,
               TransactionCount = 1\<rparr>,
              \<lparr>Merchant = CStr ''B'', TotalWithdrawalAmount = Fixed2 False 5000,
               TotalWithdrawalFees = Fixed2 False 100, PercentAmount = Fixed2 False 250,
               TransactionCount = 1\<rparr>,
              \<lparr>Merchant = CStr ''TOTAL'', TotalWithdrawalAmount = Fixed2 False 15000,
               TotalWithdrawalFees = Fixed2 False 300, PercentAmount = Fixed2 False 750,
               TransactionCount = 2\<rparr>],
           transactions =
             map rest_of
               [\<lparr>cols = row_A, RowIndex = 2, DateOnly = Some ''2023-03-15''\<rparr>,
                \<lparr>cols = row_B, RowIndex = 3, DateOnly = Some ''2023-03-16''\<rparr>],
           outputFilename = now, dateRange = (''2023-03-15'', ''2023-03-16''),
           transactionCount = 2, merchantCount = 2\<rparr>,
        sample_state)" for now
  proof -
    have b: "selectedMerchants sample_body = [''A'', ''B'']"
      "percentage sample_body = CNum (Finite 5)"
      "startDate sample_body = ''2023-03-15''" "endDate sample_body = ''2023-03-16''"
      by (simp_all add: sample_body_def)
    show ?thesis
      using sample_body_ok
      unfolding generate_def b sample_state_eq
      by (simp add: filtered_sample summaryData_sample summaryMap_sample)
  qed
  show ?thesis
    using generate_idempotent [of utc_engine 1 sample_body sample_state
        "fst (generate utc_engine 1 sample_body sample_state)" sample_state 2
        "fst (generate utc_engine 2 sample_body sample_state)" sample_state]
    by (simp add: run)
qed

subsection \<open>The total row\<close>

lemma foldl_add_sum_list:
  "foldl (\<lambda>sum row. sum + f row) (a :: nat) rows = a + sum_list (map f rows)"
  by (induction rows arbitrary: a) simp_all

lemma reduce_field_foldl:
  "reduce_field f rows = foldl js_add (Finite 0) (map (parseFloat_numstr \<circ> f) rows)"
  by (simp add: reduce_field_def foldl_map)

lemma generate_ok_summary:
  assumes "generate env now body st = (GenerateOk res, st')"
  shows "\<exists>fd. fileData st = Some fd
           \<and> summary res
               = summaryData env (parseFloat env (percentage body))
                   (filteredData (selectedMerchants body) (startDate body) (endDate body)
                      (fd_processedData fd))"
  using assms by (auto simp: generate_def split: if_splits option.splits)

lemma processedData_three:
  "processedData env [a, b, c]
     = List.map_filter id
         [process_row env a 0, process_row env b (Suc 0), process_row env c (Suc (Suc 0))]"
  by (simp add: processedData_def List.map_filter_def upt_rec)

lemma processedData_small:
  "processedData utc_engine [small_A, small_B]
     = [\<lparr>cols = small_A, RowIndex = 2, DateOnly = Some ''2023-03-15''\<rparr>,
        \<lparr>cols = small_B, RowIndex = 3, DateOnly = Some ''2023-03-16''\<rparr>]"
proof -
  have "small_A ''Date'' = Some (CNum (Finite 45001))" "small_B ''Date'' = Some (CNum (Finite 45002))"
    by (simp_all add: small_A_def small_B_def)
  then show ?thesis
    by (simp add: processedData_two process_row_45001 process_row_45002 List.map_filter_def)
qed

lemma small_state_eq:
  "fileData small_state
     = Some \<lparr>fd_processedData = processedData utc_engine [small_A, small_B],
             fd_merchants = merchants (processedData utc_engine [small_A, small_B])\<rparr>"
  by (simp add: small_state_def upload_def)

lemma filtered_small:
  "filteredData [''A'', ''B''] ''2023-03-15'' ''2023-03-16'' (processedData utc_engine [small_A, small_B])
     = [\<lparr>cols = small_A, RowIndex = 2, DateOnly = Some ''2023-03-15''\<rparr>,
        \<lparr>cols = small_B, RowIndex = 3, DateOnly = Some ''2023-03-16''\<rparr>]"
proof -
  have "read_prop small_A ''Merchant Name'' = CStr ''A''"
    "read_prop small_B ''Merchant Name'' = CStr ''B''"
    by (simp_all add: read_prop_def small_A_def small_B_def)
  then show ?thesis
    unfolding processedData_small
    by (simp add: filteredData_def row_matches_def get_cols)
qed

lemma step_small_A:
  "summary_step utc_engine (Finite 5) m \<lparr>cols = small_A, RowIndex = i, DateOnly = d\<rparr>
     = accumulate m (CStr ''A'') (Finite (1152921504606847 / 288230376151711744)) (Finite 0)
         (Finite (7378697629483821 / 36893488147419103232))"
  by (simp add: summary_step_def get_cols read_prop_def small_A_def or_zero_def percent_of_def
        fl_eval)

lemma step_small_B:
  "summary_step utc_engine (Finite 5) m \<lparr>cols = small_B, RowIndex = i, DateOnly = d\<rparr>
     = accumulate m (CStr ''B'') (Finite (1152921504606847 / 288230376151711744)) (Finite 0)
         (Finite (7378697629483821 / 36893488147419103232))"
  by (simp add: summary_step_def get_cols read_prop_def small_B_def or_zero_def percent_of_def
        fl_eval)

lemma summaryMap_small:
  "summaryMap utc_engine (Finite 5)
     [\<lparr>cols = small_A, RowIndex = 2, DateOnly = Some ''2023-03-15''\<rparr>,
      \<lparr>cols = small_B, RowIndex = 3, DateOnly = Some ''2023-03-16''\<rparr>]
   = [(CStr ''A'', \<lparr>withdrawal = Finite (1152921504606847 / 288230376151711744), fee = Finite 0,
                    percentAmount = Finite (7378697629483821 / 36893488147419103232), count = 1\<rparr>),
      (CStr ''B'', \<lparr>withdrawal = Finite (1152921504606847 / 288230376151711744), fee = Finite 0,
                    percentAmount = Finite (7378697629483821 / 36893488147419103232), count = 1\<rparr>)]"
  by (simp add: summaryMap_def step_small_A step_small_B accumulate_def map_has_def add_to_def
        zero_running_def fl_eval)

lemma summaryData_small:
  "summaryData utc_engine (Finite 5)
     [\<lparr>cols = small_A, RowIndex = 2, DateOnly = Some ''2023-03-15''\<rparr>,
      \<lparr>cols = small_B, RowIndex = 3, DateOnly = Some ''2023-03-16''\<rparr>]
   = [\<lparr>Merchant = CStr ''A'', TotalWithdrawalAmount = Fixed2 False 0,
       TotalWithdrawalFees = Fixed2 False 0, PercentAmount = Fixed2 False 0,
       TransactionCount = 1\<rparr>,
      \<lparr>Merchant = CStr ''B'', TotalWithdrawalAmount = Fixed2 False 0,
       TotalWithdrawalFees = Fixed2 False 0, PercentAmount = Fixed2 False 0,
       TransactionCount = 1\<rparr>,
      \<lparr>Merchant = CStr ''TOTAL'', TotalWithdrawalAmount = Fixed2 False 0,
       TotalWithdrawalFees = Fixed2 False 0, PercentAmount = Fixed2 False 0,
       TransactionCount = 2\<rparr>]"
  unfolding summaryData_def summaryMap_small
  by (simp add: merchant_row_def totals_def reduce_field_def floor_rat_numeral
        floor_rat_one_numeral fl_small_ints)

lemma small_run:
  "generate utc_engine 1 sample_body small_state
     = (GenerateOk
          \<lparr>summary =
             [\<lparr>Merchant = CStr ''A'', TotalWithdrawalAmount = Fixed2 False 0,
               TotalWithdrawalFees = Fixed2 False 0, PercentAmount = Fixed2 False 0,
               TransactionCount = 1\<rparr>,
              \<lparr>Merchant = CStr ''B'', TotalWithdrawalAmount = Fixed2 False 0,
               TotalWithdrawalFees = Fixed2 False 0, PercentAmount = Fixed2 False 0,
               TransactionCount = 1\<rparr>,
              \<lparr>Merchant = CStr ''TOTAL'', TotalWithdrawalAmount = Fixed2 False 0,
               TotalWithdrawalFees = Fixed2 False 0, PercentAmount = Fixed2 False 0,
               TransactionCount = 2\<rparr>],
           transactions =
             map rest_of
               [\<lparr>cols = small_A, RowIndex = 2, DateOnly = Some ''2023-03-15''\<rparr>,
                \<lparr>cols = small_B, RowIndex = 3, DateOnly = Some ''2023-03-16''\<rparr>],
           outputFilename = 1, dateRange = (''2023-03-15'', ''2023-03-16''),
           transactionCount = 2, merchantCount = 2\<rparr>,
        small_state)"
proof -
  have b: "selectedMerchants sample_body = [''A'', ''B'']"
    "percentage sample_body = CNum (Finite 5)"
    "startDate sample_body = ''2023-03-15''" "endDate sample_body = ''2023-03-16''"
    by (simp_all add: sample_body_def)
  show ?thesis
    using sample_body_ok
    unfolding generate_def b small_state_eq
    by (simp add: filtered_small summaryData_small summaryMap_small)
qed

lemma raw_small_sum:
  "toFixed2 (js_add (Finite (1152921504606847 / 288230376151711744))
               (Finite (1152921504606847 / 288230376151711744))) = Fixed2 False 1"
  by (simp add: fl_eval)

text \<open>
  C3, amended. In every successful answer the summary ends with the row \<open>TOTAL\<close>, and each of
  its amounts is \<^verbatim>\<open>toFixed(2)\<close> of the sum, added from the left in double precision, of what
  \<^verbatim>\<open>parseFloat\<close> reads back from that column of the rows before it, which are the
  merchants' totals already rounded to two places. The raw totals are not used again.
\<close>

theorem total_row_sums_rounded:
  assumes "generate env now body st = (GenerateOk res, st')"
  shows "\<exists>entries total.
           summary res = map merchant_row entries @ [total]
           \<and> Merchant total = CStr ''TOTAL''
           \<and> TotalWithdrawalAmount total
               = toFixed2 (foldl js_add (Finite 0)
                   (map (\<lambda>e. parseFloat_numstr (toFixed2 (withdrawal (snd e)))) entries))
           \<and> TotalWithdrawalFees total
               = toFixed2 (foldl js_add (Finite 0)
                   (map (\<lambda>e. parseFloat_numstr (toFixed2 (fee (snd e)))) entries))
           \<and> PercentAmount total
               = toFixed2 (foldl js_add (Finite 0)
                   (map (\<lambda>e. parseFloat_numstr (toFixed2 (percentAmount (snd e)))) entries))
           \<and> TransactionCount total = sum_list (map (\<lambda>e. count (snd e)) entries)"
proof -
  obtain fd where "fileData st = Some fd" and s: "summary res
               = summaryData env (parseFloat env (percentage body))
                   (filteredData (selectedMerchants body) (startDate body) (endDate body)
                      (fd_processedData fd))"
    using generate_ok_summary [OF assms] by (elim exE conjE) (rule that)
  define entries where "entries = summaryMap env (parseFloat env (percentage body))
                   (filteredData (selectedMerchants body) (startDate body) (endDate body)
                      (fd_processedData fd))"
  have "summary res = map merchant_row entries @ [totals (map merchant_row entries)]"
    by (simp add: s summaryData_def entries_def)
  then show ?thesis
    by (intro exI [of _ entries] exI [of _ "totals (map merchant_row entries)"])
       (simp add: totals_def reduce_field_foldl foldl_add_sum_list comp_def
          merchant_row_def del: toFixed2.simps parseFloat_numstr.simps js_add.simps)
qed

theorem total_row_sums_rounded_witness:
  "generate utc_engine 1 sample_body small_state
     = (GenerateOk
          \<lparr>summary =
             [\<lparr>Merchant = CStr ''A'', TotalWithdrawalAmount = Fixed2 False 0,
               TotalWithdrawalFees = Fixed2 False 0, PercentAmount = Fixed2 False 0,
               TransactionCount = 1\<rparr>,
              \<lparr>Merchant = CStr ''B'', TotalWithdrawalAmount = Fixed2 False 0,
               TotalWithdrawalFees = Fixed2 False 0, PercentAmount = Fixed2 False 0,
               TransactionCount = 1\<rparr>,
              \<lparr>Merchant = CStr ''TOTAL'', TotalWithdrawalAmount = Fixed2 False 0,
               TotalWithdrawalFees = Fixed2 False 0, PercentAmount = Fixed2 False 0,
               TransactionCount = 2\<rparr>],
           transactions =
             map rest_of
               [\<lparr>cols = small_A, RowIndex = 2, DateOnly = Some ''2023-03-15''\<rparr>,
                \<lparr>cols = small_B, RowIndex = 3, DateOnly = Some ''2023-03-16''\<rparr>],
           outputFilename = 1, dateRange = (''2023-03-15'', ''2023-03-16''),
           transactionCount = 2, merchantCount = 2\<rparr>,
        small_state)
   \<and> toFixed2 (js_add (Finite (1152921504606847 / 288230376151711744))
                 (Finite (1152921504606847 / 288230376151711744))) = Fixed2 False 1"
  using total_row_sums_rounded [OF small_run] small_run raw_small_sum by simp

lemma processedData_big:
  "processedData utc_engine [big_A, big_B, big_C]
     = [\<lparr>cols = big_A, RowIndex = 2, DateOnly = Some ''2023-03-15''\<rparr>,
        \<lparr>cols = big_B, RowIndex = 3, DateOnly = Some ''2023-03-15''\<rparr>,
        \<lparr>cols = big_C, RowIndex = 4, DateOnly = Some ''2023-03-15''\<rparr>]"
proof -
  have "big_A ''Date'' = Some (CNum (Finite 45001))" "big_B ''Date'' = Some (CNum (Finite 45001))"
    "big_C ''Date'' = Some (CNum (Finite 45001))"
    by (simp_all add: big_A_def big_B_def big_C_def)
  then show ?thesis
    by (simp add: processedData_three process_row_45001 List.map_filter_def)
qed

lemma big_state_eq:
  "fileData big_state
     = Some \<lparr>fd_processedData = processedData utc_engine [big_A, big_B, big_C],
             fd_merchants = merchants (processedData utc_engine [big_A, big_B, big_C])\<rparr>"
  by (simp add: big_state_def upload_def)

lemma big_body_ok:
  "selectedMerchants big_body = [''A'', ''B'', ''C'']"
  "percentage big_body = CNum (Finite 0)"
  "startDate big_body = ''2023-03-15''" "endDate big_body = ''2023-03-15''"
  "\<not> bad_percent (parseFloat utc_engine (percentage big_body))"
  "\<not> bad_dates utc_engine (startDate big_body) (endDate big_body)"
  by (simp_all add: big_body_def bad_percent_def isNaN_def bad_dates_def falsy_time_def
        parse_eval calendar_eval)

lemma filtered_big:
  "filteredData [''A'', ''B'', ''C''] ''2023-03-15'' ''2023-03-15''
     (processedData utc_engine [big_A, big_B, big_C])
     = [\<lparr>cols = big_A, RowIndex = 2, DateOnly = Some ''2023-03-15''\<rparr>,
        \<lparr>cols = big_B, RowIndex = 3, DateOnly = Some ''2023-03-15''\<rparr>,
        \<lparr>cols = big_C, RowIndex = 4, DateOnly = Some ''2023-03-15''\<rparr>]"
proof -
  have "read_prop big_A ''Merchant Name'' = CStr ''A''"
    "read_prop big_B ''Merchant Name'' = CStr ''B''"
    "read_prop big_C ''Merchant Name'' = CStr ''C''"
    by (simp_all add: read_prop_def big_A_def big_B_def big_C_def)
  then show ?thesis
    unfolding processedData_big
    by (simp add: filteredData_def row_matches_def get_cols)
qed

lemma step_big_A:
  "summary_step utc_engine (Finite 0) m \<lparr>cols = big_A, RowIndex = i, DateOnly = d\<rparr>
     = accumulate m (CStr ''A'') (Finite (5764607523034235 / 128)) (Finite 0) (Finite 0)"
  by (simp add: summary_step_def get_cols read_prop_def big_A_def or_zero_def percent_of_def
        fl_def)

lemma step_big_B:
  "summary_step utc_engine (Finite 0) m \<lparr>cols = big_B, RowIndex = i, DateOnly = d\<rparr>
     = accumulate m (CStr ''B'') (Finite (5764607523034236 / 128)) (Finite 0) (Finite 0)"
  by (simp add: summary_step_def get_cols read_prop_def big_B_def or_zero_def percent_of_def
        fl_def)

lemma step_big_C:
  "summary_step utc_engine (Finite 0) m \<lparr>cols = big_C, RowIndex = i, DateOnly = d\<rparr>
     = accumulate m (CStr ''C'') (Finite (5764607523034235 / 576460752303423488)) (Finite 0)
         (Finite 0)"
  by (simp add: summary_step_def get_cols read_prop_def big_C_def or_zero_def percent_of_def
        fl_def)

lemma summaryMap_big:
  "summaryMap utc_engine (Finite 0)
     [\<lparr>cols = big_A, RowIndex = 2, DateOnly = Some ''2023-03-15''\<rparr>,
      \<lparr>cols = big_B, RowIndex = 3, DateOnly = Some ''2023-03-15''\<rparr>,
      \<lparr>cols = big_C, RowIndex = 4, DateOnly = Some ''2023-03-15''\<rparr>]
   = [(CStr ''A'', \<lparr>withdrawal = Finite (5764607523034235 / 128), fee = Finite 0,
                    percentAmount = Finite 0, count = 1\<rparr>),
      (CStr ''B'', \<lparr>withdrawal = Finite (5764607523034236 / 128), fee = Finite 0,
                    percentAmount = Finite 0, count = 1\<rparr>),
      (CStr ''C'', \<lparr>withdrawal = Finite (5764607523034235 / 576460752303423488), fee = Finite 0,
                    percentAmount = Finite 0, count = 1\<rparr>)]"
  by (simp add: summaryMap_def step_big_A step_big_B step_big_C accumulate_def map_has_def
        add_to_def zero_running_def fl_eval)

lemma summaryData_big:
  "summaryData utc_engine (Finite 0)
     [\<lparr>cols = big_A, RowIndex = 2, DateOnly = Some ''2023-03-15''\<rparr>,
      \<lparr>cols = big_B, RowIndex = 3, DateOnly = Some ''2023-03-15''\<rparr>,
      \<lparr>cols = big_C, RowIndex = 4, DateOnly = Some ''2023-03-15''\<rparr>]
   = [\<lparr>Merchant = CStr ''A'', TotalWithdrawalAmount = Fixed2 False 4503599627370496,
       TotalWithdrawalFees = Fixed2 False 0, PercentAmount = Fixed2 False 0,
       TransactionCount = 1\<rparr>,
      \<lparr>Merchant = CStr ''B'', TotalWithdrawalAmount = Fixed2 False 4503599627370497,
       TotalWithdrawalFees = Fixed2 False 0, PercentAmount = Fixed2 False 0,
       TransactionCount = 1\<rparr>,
      \<lparr>Merchant = CStr ''C'', TotalWithdrawalAmount = Fixed2 False 1,
       TotalWithdrawalFees = Fixed2 False 0, PercentAmount = Fixed2 False 0,
       TransactionCount = 1\<rparr>,
      \<lparr>Merchant = CStr ''TOTAL'', TotalWithdrawalAmount = Fixed2 False 9007199254740995,
       TotalWithdrawalFees = Fixed2 False 0, PercentAmount = Fixed2 False 0,
       TransactionCount = 3\<rparr>]"
  unfolding summaryData_def summaryMap_big
  by (simp add: merchant_row_def totals_def reduce_field_def fl_eval)

text \<open>
  Three merchants with the amounts 45035996273704.96, 45035996273704.97 and 0.01: the rows
  show these amounts, which add up to 90071992547409.94, and the row \<open>TOTAL\<close> shows
  90071992547409.95, the sum of the first two being rounded to a double on the way.
\<close>

theorem total_not_decimal_sum_counterexample:
  "generate utc_engine 1 big_body big_state
     = (GenerateOk
          \<lparr>summary =
             [\<lparr>Merchant = CStr ''A'', TotalWithdrawalAmount = Fixed2 False 4503599627370496,
               TotalWithdrawalFees = Fixed2 False 0, PercentAmount = Fixed2 False 0,
               TransactionCount = 1\<rparr>,
              \<lparr>Merchant = CStr ''B'', TotalWithdrawalAmount = Fixed2 False 4503599627370497,
               TotalWithdrawalFees = Fixed2 False 0, PercentAmount = Fixed2 False 0,
               TransactionCount = 1\<rparr>,
              \<lparr>Merchant = CStr ''C'', TotalWithdrawalAmount = Fixed2 False 1,
               TotalWithdrawalFees = Fixed2 False 0, PercentAmount = Fixed2 False 0,
               TransactionCount = 1\<rparr>,
              \<lparr>Merchant = CStr ''TOTAL'', TotalWithdrawalAmount = Fixed2 False 9007199254740995,
               TotalWithdrawalFees = Fixed2 False 0, PercentAmount = Fixed2 False 0,
               TransactionCount = 3\<rparr>],
           transactions =
             map rest_of
               [\<lparr>cols = big_A, RowIndex = 2, DateOnly = Some ''2023-03-15''\<rparr>,
                \<lparr>cols = big_B, RowIndex = 3, DateOnly = Some ''2023-03-15''\<rparr>,
                \<lparr>cols = big_C, RowIndex = 4, DateOnly = Some ''2023-03-15''\<rparr>],
           outputFilename = 1, dateRange = (''2023-03-15'', ''2023-03-15''),
           transactionCount = 3, merchantCount = 3\<rparr>,
        big_state)
   \<and> (4503599627370496 :: nat) + 4503599627370497 + 1 \<noteq> 9007199254740995"
proof -
  have "generate utc_engine 1 big_body big_state
     = (GenerateOk
          \<lparr>summary =
             [\<lparr>Merchant = CStr ''A'', TotalWithdrawalAmount = Fixed2 False 4503599627370496,
               TotalWithdrawalFees = Fixed2 False 0, PercentAmount = Fixed2 False 0,
               TransactionCount = 1\<rparr>,
              \<lparr>Merchant = CStr ''B'', TotalWithdrawalAmount = Fixed2 False 4503599627370497,
               TotalWithdrawalFees = Fixed2 False 0, PercentAmount = Fixed2 False 0,
               TransactionCount = 1\<rparr>,
              \<lparr>Merchant = CStr ''C'', TotalWithdrawalAmount = Fixed2 False 1,
               TotalWithdrawalFees = Fixed2 False 0, PercentAmount = Fixed2 False 0,
               TransactionCount = 1\<rparr>,
              \<lparr>Merchant = CStr ''TOTAL'', TotalWithdrawalAmount = Fixed2 False 9007199254740995,
               TotalWithdrawalFees = Fixed2 False 0, PercentAmount = Fixed2 False 0,
               TransactionCount = 3\<rparr>],
           transactions =
             map rest_of
               [\<lparr>cols = big_A, RowIndex = 2, DateOnly = Some ''2023-03-15''\<rparr>,
                \<lparr>cols = big_B, RowIndex = 3, DateOnly = Some ''2023-03-15''\<rparr>,
                \<lparr>cols = big_C, RowIndex = 4, DateOnly = Some ''2023-03-15''\<rparr>],
           outputFilename = 1, dateRange = (''2023-03-15'', ''2023-03-15''),
           transactionCount = 3, merchantCount = 3\<rparr>,
        big_state)"
    using big_body_ok(5,6)
    unfolding generate_def big_body_ok(1-4) big_state_eq
    by (simp add: filtered_big summaryData_big summaryMap_big)
  then show ?thesis by simp
qed

subsection \<open>The merchant list\<close>

lemma Set_of_foldl:
  "set (foldl (\<lambda>acc x. if x \<in> set acc then acc else acc @ [x]) acc xs) = set acc \<union> set xs
   \<and> (distinct acc \<longrightarrow> distinct (foldl (\<lambda>acc x. if x \<in> set acc then acc else acc @ [x]) acc xs))"
  by (induction xs arbitrary: acc) auto

lemma set_Set_of: "set (Set_of xs) = set xs"
  using Set_of_foldl [of "[]" xs] by (simp add: Set_of_def)

lemma distinct_Set_of: "distinct (Set_of xs)"
  using Set_of_foldl [of "[]" xs] by (simp add: Set_of_def)

lemma set_map_filter_Some:
  "set (List.map_filter f xs) = {y. \<exists>x\<in>set xs. f x = Some y}"
  by (force simp: List.map_filter_def)

lemma trim_Nil: "trim [] = []"
  by (simp add: trim_def)

lemma merchant_name_Some:
  "merchant_name c = Some s \<longleftrightarrow> c = CStr s \<and> trim s \<noteq> []"
  by (cases c) (auto simp: trim_Nil)

text \<open>
  C5, amended. The merchant list holds exactly the strings that occur as merchant of a
  stored record and are not made of white space only, each as it stands in the sheet and
  not trimmed; it has no duplicate and no empty entry and is sorted in the order of strings.
\<close>

theorem merchants_distinct_sorted:
  "set (merchants pd)
     = {s. trim s \<noteq> [] \<and> (\<exists>r\<in>set pd. get r ''Merchant Name'' = CStr s)}
   \<and> distinct (merchants pd) \<and> sorted (merchants pd) \<and> [] \<notin> set (merchants pd)"
proof -
  have "set (merchants pd)
     = {s. trim s \<noteq> [] \<and> (\<exists>r\<in>set pd. get r ''Merchant Name'' = CStr s)}"
    by (force simp: merchants_def set_Set_of set_map_filter_Some merchant_name_Some)
  moreover have "distinct (merchants pd)"
    by (simp add: merchants_def distinct_Set_of)
  moreover have "sorted (merchants pd)"
    by (simp add: merchants_def)
  ultimately show ?thesis by (auto simp: trim_Nil)
qed

lemma processedData_one:
  "processedData env [a] = List.map_filter id [process_row env a 0]"
  by (simp add: processedData_def List.map_filter_def)

lemma processedData_padded:
  "processedData utc_engine [padded_row]
     = [\<lparr>cols = padded_row, RowIndex = 2, DateOnly = Some ''2023-03-15''\<rparr>]"
proof -
  have "padded_row ''Date'' = Some (CNum (Finite 45001))"
    by (simp add: padded_row_def)
  then show ?thesis
    by (simp add: processedData_one process_row_45001 List.map_filter_def)
qed

lemma trim_padded: "trim '' A'' = ''A''"
  by (simp add: trim_def is_space_def)

lemma merchants_padded: "merchants (processedData utc_engine [padded_row]) = ['' A'']"
proof -
  have "get \<lparr>cols = padded_row, RowIndex = 2, DateOnly = Some ''2023-03-15''\<rparr> ''Merchant Name''
          = CStr '' A''"
    by (simp add: get_cols read_prop_def padded_row_def)
  then show ?thesis
    unfolding processedData_padded
    by (simp add: merchants_def List.map_filter_def Set_of_def trim_padded)
qed

theorem merchants_distinct_sorted_witness:
  "set (merchants (processedData utc_engine [row_A, row_B])) = {''A'', ''B''}
   \<and> merchants (processedData utc_engine [row_A, row_B]) = [''A'', ''B'']"
proof -
  have m: "merchants (processedData utc_engine [row_A, row_B]) = [''A'', ''B'']"
    unfolding processedData_sample
    by (simp add: merchants_def List.map_filter_def Set_of_def merchant_A merchant_B trim_def
          is_space_def)
  show ?thesis
    using merchants_distinct_sorted [of "processedData utc_engine [row_A, row_B]"] m by simp
qed

text \<open>A merchant written with a leading blank is listed with its blank.\<close>

theorem merchants_untrimmed_counterexample:
  "merchants (processedData utc_engine [padded_row]) = ['' A'']
   \<and> trim '' A'' = ''A''
   \<and> ''A'' \<notin> set (merchants (processedData utc_engine [padded_row]))"
  by (simp add: merchants_padded trim_padded)

subsection \<open>The fields of a stored record and of an exported row\<close>

lemma parseExcelDate_returns: "\<exists>r. parseExcelDate env v = Inr r"
  by (simp add: parseExcelDate_def split: sum.splits)

lemma process_row_total:
  "\<exists>d. parseExcelDate env (read_prop row ''Date'') = Inr d
       \<and> process_row env row i = Some \<lparr>cols = row, RowIndex = i + 2, DateOnly = d\<rparr>"
proof -
  obtain d where "parseExcelDate env (read_prop row ''Date'') = Inr d"
    using parseExcelDate_returns [of env "read_prop row ''Date''"] by blast
  then show ?thesis by (simp add: process_row_def)
qed

lemma process_row_Some: "process_row env row i \<noteq> None"
  using process_row_total [of env row i] by auto

lemma map_filter_all_Some:
  assumes "\<forall>x\<in>set xs. f x \<noteq> None"
  shows "List.map_filter f xs = map (\<lambda>x. the (f x)) xs"
  using assms by (induction xs) (auto simp: List.map_filter_def)

lemma processedData_map:
  "processedData env rawData
     = map (\<lambda>(row, index). the (process_row env row index)) (zip rawData [0..<length rawData])"
proof -
  have "processedData env rawData
     = map (\<lambda>x. the ((\<lambda>(row, index). process_row env row index) x))
         (zip rawData [0..<length rawData])"
    unfolding processedData_def
    by (rule map_filter_all_Some) (simp add: process_row_Some case_prod_unfold)
  then show ?thesis by (simp add: case_prod_unfold)
qed

lemma processedData_length: "length (processedData env rawData) = length rawData"
  by (simp add: processedData_map)

lemma processedData_nth:
  assumes "i < length rawData"
  shows "\<exists>d. parseExcelDate env (read_prop (rawData ! i) ''Date'') = Inr d
           \<and> processedData env rawData ! i = \<lparr>cols = rawData ! i, RowIndex = i + 2, DateOnly = d\<rparr>"
proof -
  obtain d where d: "parseExcelDate env (read_prop (rawData ! i) ''Date'') = Inr d"
    and r: "process_row env (rawData ! i) i
              = Some \<lparr>cols = rawData ! i, RowIndex = i + 2, DateOnly = d\<rparr>"
    using process_row_total [of env "rawData ! i" i] by (elim exE conjE) (rule that)
  have "processedData env rawData ! i = the (process_row env (rawData ! i) i)"
    using assms by (simp add: processedData_map)
  then show ?thesis
    using d r by simp
qed

lemma record_frame:
  "k \<noteq> ''RowIndex'' \<Longrightarrow> k \<noteq> ''DateOnly''
     \<Longrightarrow> as_object \<lparr>cols = row, RowIndex = n, DateOnly = d\<rparr> k = row k"
  "dom (as_object \<lparr>cols = row, RowIndex = n, DateOnly = d\<rparr>)
     = dom row \<union> {''RowIndex'', ''DateOnly''}"
  "as_object \<lparr>cols = row, RowIndex = n, DateOnly = d\<rparr> ''RowIndex''
     = Some (CNum (Finite (of_nat n)))"
  "as_object \<lparr>cols = row, RowIndex = n, DateOnly = d\<rparr> ''DateOnly'' = Some (date_cell d)"
  by (auto simp: as_object_def)

lemma rest_of_cols: "rest_of r = (cols r)(''RowIndex'' := None, ''DateOnly'' := None)"
  by (auto simp: rest_of_def as_object_def)

lemma generate_ok_transactions:
  assumes "generate env now body st = (GenerateOk res, st')"
  shows "\<exists>fd. fileData st = Some fd
           \<and> transactions res
               = map rest_of
                   (filteredData (selectedMerchants body) (startDate body) (endDate body)
                      (fd_processedData fd))"
  using assms by (auto simp: generate_def split: if_splits option.splits)

text \<open>
  C9, amended. The upload handler drops no row, and the record it stores for a raw row
  carries every raw field unchanged except those named \<open>RowIndex\<close> and \<open>DateOnly\<close>: these
  two properties are the ones written, the line of the sheet and the result of
  \<open>parseExcelDate\<close> on the column \<open>Date\<close>, over raw columns of the same names where there
  are any. The generate handler leaves the stored records as they are, and each row it
  exports is a stored record without these two properties, that is the columns of the raw
  row other than these two names, and nothing else.
\<close>

theorem stored_and_exported_fields:
  "(rawData \<noteq> []
      \<longrightarrow> (\<exists>pd. fileData (snd (upload env rawData st))
                    = Some \<lparr>fd_processedData = pd, fd_merchants = merchants pd\<rparr>
                \<and> length pd = length rawData
                \<and> (\<forall>i<length rawData.
                      (\<forall>k. k \<noteq> ''RowIndex'' \<longrightarrow> k \<noteq> ''DateOnly''
                           \<longrightarrow> as_object (pd ! i) k = (rawData ! i) k)
                      \<and> dom (as_object (pd ! i)) = dom (rawData ! i) \<union> {''RowIndex'', ''DateOnly''}
                      \<and> as_object (pd ! i) ''RowIndex'' = Some (CNum (Finite (of_nat (i + 2))))
                      \<and> (\<exists>d. parseExcelDate env (read_prop (rawData ! i) ''Date'') = Inr d
                              \<and> as_object (pd ! i) ''DateOnly'' = Some (date_cell d))
                      \<and> cols (pd ! i) = rawData ! i)))
   \<and> snd (generate env now body st) = st
   \<and> (generate env now body st = (GenerateOk res, st')
      \<longrightarrow> (\<exists>fd. fileData st = Some fd
                \<and> (\<forall>row\<in>set (transactions res). \<exists>r\<in>set (fd_processedData fd).
                      row = (as_object r)(''RowIndex'' := None, ''DateOnly'' := None)
                      \<and> row = (cols r)(''RowIndex'' := None, ''DateOnly'' := None))))"
proof -
  have up: "\<exists>pd. fileData (snd (upload env rawData st))
                    = Some \<lparr>fd_processedData = pd, fd_merchants = merchants pd\<rparr>
                \<and> length pd = length rawData
                \<and> (\<forall>i<length rawData.
                      (\<forall>k. k \<noteq> ''RowIndex'' \<longrightarrow> k \<noteq> ''DateOnly''
                           \<longrightarrow> as_object (pd ! i) k = (rawData ! i) k)
                      \<and> dom (as_object (pd ! i)) = dom (rawData ! i) \<union> {''RowIndex'', ''DateOnly''}
                      \<and> as_object (pd ! i) ''RowIndex'' = Some (CNum (Finite (of_nat (i + 2))))
                      \<and> (\<exists>d. parseExcelDate env (read_prop (rawData ! i) ''Date'') = Inr d
                              \<and> as_object (pd ! i) ''DateOnly'' = Some (date_cell d))
                      \<and> cols (pd ! i) = rawData ! i)"
    if ne: "rawData \<noteq> []"
  proof (intro exI [of _ "processedData env rawData"] conjI allI impI)
    show "fileData (snd (upload env rawData st))
            = Some \<lparr>fd_processedData = processedData env rawData,
                    fd_merchants = merchants (processedData env rawData)\<rparr>"
      using ne by (simp add: upload_def)
    show "length (processedData env rawData) = length rawData"
      by (rule processedData_length)
  next
    fix i assume i: "i < length rawData"
    obtain d where d: "parseExcelDate env (read_prop (rawData ! i) ''Date'') = Inr d"
      and r: "processedData env rawData ! i
                = \<lparr>cols = rawData ! i, RowIndex = i + 2, DateOnly = d\<rparr>"
      using processedData_nth [OF i, of env] by (elim exE conjE) (rule that)
    show "as_object (processedData env rawData ! i) k = (rawData ! i) k"
      if "k \<noteq> ''RowIndex''" "k \<noteq> ''DateOnly''" for k
      unfolding r using that by (rule record_frame(1))
    show "dom (as_object (processedData env rawData ! i))
            = dom (rawData ! i) \<union> {''RowIndex'', ''DateOnly''}"
      unfolding r by (rule record_frame(2))
    show "as_object (processedData env rawData ! i) ''RowIndex''
            = Some (CNum (Finite (of_nat (i + 2))))"
      unfolding r by (rule record_frame(3))
    show "\<exists>d. parseExcelDate env (read_prop (rawData ! i) ''Date'') = Inr d
            \<and> as_object (processedData env rawData ! i) ''DateOnly'' = Some (date_cell d)"
      unfolding r by (intro exI [of _ d] conjI d record_frame(4))
    show "cols (processedData env rawData ! i) = rawData ! i"
      unfolding r by simp
  qed
  have st: "snd (generate env now body st) = st"
    by (rule generate_state)
  have ex: "\<exists>fd. fileData st = Some fd
                \<and> (\<forall>row\<in>set (transactions res). \<exists>r\<in>set (fd_processedData fd).
                      row = (as_object r)(''RowIndex'' := None, ''DateOnly'' := None)
                      \<and> row = (cols r)(''RowIndex'' := None, ''DateOnly'' := None))"
    if ok: "generate env now body st = (GenerateOk res, st')"
  proof -
    obtain fd where fd: "fileData st = Some fd"
      and t: "transactions res
               = map rest_of
                   (filteredData (selectedMerchants body) (startDate body) (endDate body)
                      (fd_processedData fd))"
      using generate_ok_transactions [OF ok] by (elim exE conjE) (rule that)
    have rows: "\<exists>r\<in>set (fd_processedData fd).
            row = (as_object r)(''RowIndex'' := None, ''DateOnly'' := None)
            \<and> row = (cols r)(''RowIndex'' := None, ''DateOnly'' := None)"
      if "row \<in> set (transactions res)" for row
    proof -
      have "row \<in> rest_of ` set (filteredData (selectedMerchants body) (startDate body)
                                     (endDate body) (fd_processedData fd))"
        using that by (simp add: t)
      then obtain r where row: "row = rest_of r"
        and "r \<in> set (filteredData (selectedMerchants body) (startDate body)
                         (endDate body) (fd_processedData fd))"
        by (rule imageE)
      then have r: "r \<in> set (fd_processedData fd)"
        by (simp add: filteredData_def)
      have "row = (as_object r)(''RowIndex'' := None, ''DateOnly'' := None)"
        unfolding row by (simp only: rest_of_def)
      moreover have "row = (cols r)(''RowIndex'' := None, ''DateOnly'' := None)"
        unfolding row by (simp only: rest_of_cols)
      ultimately show ?thesis
        using r by (intro bexI [of _ r] conjI)
    qed
    show ?thesis
    proof (intro exI [of _ fd] conjI ballI)
      show "fileData st = Some fd" by (rule fd)
    next
      fix row assume "row \<in> set (transactions res)"
      then show "\<exists>r\<in>set (fd_processedData fd).
            row = (as_object r)(''RowIndex'' := None, ''DateOnly'' := None)
            \<and> row = (cols r)(''RowIndex'' := None, ''DateOnly'' := None)"
        by (rule rows)
    qed
  qed
  show ?thesis
    by (intro conjI impI) (erule up, rule st, erule ex)
qed

theorem stored_and_exported_fields_witness:
  "[row_A, row_B] \<noteq> []
   \<and> fileData (snd (upload utc_engine [row_A, row_B] no_data))
       = Some \<lparr>fd_processedData =
                 [\<lparr>cols = row_A, RowIndex = 2, DateOnly = Some ''2023-03-15''\<rparr>,
                  \<lparr>cols = row_B, RowIndex = 3, DateOnly = Some ''2023-03-16''\<rparr>],
               fd_merchants = [''A'', ''B'']\<rparr>
   \<and> as_object \<lparr>cols = row_A, RowIndex = 2, DateOnly = Some ''2023-03-15''\<rparr> ''Merchant Name''
       = row_A ''Merchant Name''
   \<and> as_object \<lparr>cols = row_A, RowIndex = 2, DateOnly = Some ''2023-03-15''\<rparr> ''DateOnly''
       = Some (CStr ''2023-03-15'')
   \<and> generate utc_engine 1 one_day_body sample_state
       = (GenerateOk
            \<lparr>summary =
               [\<lparr>Merchant = CStr ''A'', TotalWithdrawalAmount = Fixed2 False 10000,
                 TotalWithdrawalFees = Fixed2 False 200, PercentAmount = Fixed2 False 500,
                 TransactionCount = 1\<rparr>,
                \<lparr>Merchant = CStr ''TOTAL'', TotalWithdrawalAmount = Fixed2 False 10000,
                 TotalWithdrawalFees = Fixed2 False 200, PercentAmount = Fixed2 False 500,
                 TransactionCount = 1\<rparr>],
             transactions = [row_A],
             outputFilename = 1, dateRange = (''2023-03-15'', ''2023-03-15''),
             transactionCount = 1, merchantCount = 1\<rparr>,
          sample_state)
   \<and> row_A = (as_object \<lparr>cols = row_A, RowIndex = 2, DateOnly = Some ''2023-03-15''\<rparr>)
               (''RowIndex'' := None, ''DateOnly'' := None)"
proof -
  have m: "merchants (processedData utc_engine [row_A, row_B]) = [''A'', ''B'']"
    unfolding processedData_sample
    by (simp add: merchants_def List.map_filter_def Set_of_def merchant_A merchant_B trim_def
          is_space_def)
  have u: "fileData (snd (upload utc_engine [row_A, row_B] no_data))
       = Some \<lparr>fd_processedData =
                 [\<lparr>cols = row_A, RowIndex = 2, DateOnly = Some ''2023-03-15''\<rparr>,
                  \<lparr>cols = row_B, RowIndex = 3, DateOnly = Some ''2023-03-16''\<rparr>],
               fd_merchants = [''A'', ''B'']\<rparr>"
    using m by (simp add: upload_def processedData_sample)
  have a: "row_A = (as_object \<lparr>cols = row_A, RowIndex = 2, DateOnly = Some ''2023-03-15''\<rparr>)
               (''RowIndex'' := None, ''DateOnly'' := None)"
    using rest_of_A [of 2 "Some ''2023-03-15''"] by (simp add: rest_of_def)
  have o: "as_object \<lparr>cols = row_A, RowIndex = 2, DateOnly = Some ''2023-03-15''\<rparr> ''Merchant Name''
       = row_A ''Merchant Name''"
    "as_object \<lparr>cols = row_A, RowIndex = 2, DateOnly = Some ''2023-03-15''\<rparr> ''DateOnly''
       = Some (CStr ''2023-03-15'')"
    by (simp_all add: as_object_def date_cell_def)
  have ne: "[row_A, row_B] \<noteq> []"
    by simp
  note t1 = stored_and_exported_fields [of "[row_A, row_B]" utc_engine no_data 1 one_day_body
      res st', THEN conjunct1, THEN mp, OF ne]
  note t2 = stored_and_exported_fields [of "[]" utc_engine sample_state 1 one_day_body
      "\<lparr>summary =
               [\<lparr>Merchant = CStr ''A'', TotalWithdrawalAmount = Fixed2 False 10000,
                 TotalWithdrawalFees = Fixed2 False 200, PercentAmount = Fixed2 False 500,
                 TransactionCount = 1\<rparr>,
                \<lparr>Merchant = CStr ''TOTAL'', TotalWithdrawalAmount = Fixed2 False 10000,
                 TotalWithdrawalFees = Fixed2 False 200, PercentAmount = Fixed2 False 500,
                 TransactionCount = 1\<rparr>],
             transactions = [row_A],
             outputFilename = 1, dateRange = (''2023-03-15'', ''2023-03-15''),
             transactionCount = 1, merchantCount = 1\<rparr>" sample_state,
      THEN conjunct2, THEN conjunct2, THEN mp, OF one_day_run]
  show ?thesis
    using t1 t2 u a o one_day_run [of 1] by simp
qed

text \<open>The record has a property \<open>RowIndex\<close> that the raw row lacks, and a column
  \<open>DateOnly\<close> of the sheet is replaced; the rows exported for the scenario carry no field
  with an amount of the percentage.\<close>

theorem added_fields_counterexample:
  "process_row utc_engine row_A 0
     = Some \<lparr>cols = row_A, RowIndex = 2, DateOnly = Some ''2023-03-15''\<rparr>
   \<and> row_A ''RowIndex'' = None
   \<and> as_object \<lparr>cols = row_A, RowIndex = 2, DateOnly = Some ''2023-03-15''\<rparr> ''RowIndex''
       = Some (CNum (Finite 2))
   \<and> process_row utc_engine shadow_row 0
       = Some \<lparr>cols = shadow_row, RowIndex = 2, DateOnly = Some ''2023-03-15''\<rparr>
   \<and> shadow_row ''DateOnly'' = Some (CStr ''x'')
   \<and> as_object \<lparr>cols = shadow_row, RowIndex = 2, DateOnly = Some ''2023-03-15''\<rparr> ''DateOnly''
       = Some (CStr ''2023-03-15'')"
proof -
  have "shadow_row ''Date'' = Some (CNum (Finite 45001))"
    by (simp add: shadow_row_def)
  then have "process_row utc_engine shadow_row 0
       = Some \<lparr>cols = shadow_row, RowIndex = 2, DateOnly = Some ''2023-03-15''\<rparr>"
    by (simp add: process_row_45001)
  moreover have "row_A ''RowIndex'' = None"
    by (simp add: row_A_def)
  moreover have "shadow_row ''DateOnly'' = Some (CStr ''x'')"
    by (simp add: shadow_row_def)
  ultimately show ?thesis
    by (simp add: processed_row_A as_object_def date_cell_def)
qed


end
